theory Spec2Isabelle
  imports Complex_Main
begin

section \<open>Go values used by the service\<close>

text \<open>
  Go strings are byte sequences; they are modelled as \<open>string\<close> (a list of 8-bit
  characters).  Runtime panics and \<open>error\<close> values are results of the sum type
  \<open>error + 'a\<close>: \<open>Error m\<close> is an \<open>error\<close> value whose \<open>Error()\<close> text is \<open>m\<close>.
\<close>

datatype error =
    NilPointerDereference
  | IndexOutOfRange
  | IntegerDivideByZero
  | Error string

text \<open>
  \<open>float64\<close> is a type parameter \<open>'f\<close>.  The primitives of the language and of the
  standard library that the service applies to \<open>float64\<close> values are the fields of a
  record that every function working on floats receives: nothing below depends on how
  binary64 rounds.
\<close>

record 'f float64_ops =
  f0 :: "'f"                                 \<comment> \<open>the zero value of \<open>float64\<close>\<close>
  fconst :: "string \<Rightarrow> 'f"            \<comment> \<open>value of a floating-point constant given by its source text\<close>
  fint :: "int \<Rightarrow> 'f"                \<comment> \<open>the conversion \<open>float64(i)\<close>\<close>
  fmul :: "'f \<Rightarrow> 'f \<Rightarrow> 'f"
  fadd :: "'f \<Rightarrow> 'f \<Rightarrow> 'f"
  feq :: "'f \<Rightarrow> 'f \<Rightarrow> bool"   \<comment> \<open>the operator \<open>==\<close>\<close>
  fle :: "'f \<Rightarrow> 'f \<Rightarrow> bool"   \<comment> \<open>the operator \<open><=\<close>\<close>
  ParseFloat :: "string \<Rightarrow> 'f option" \<comment> \<open>\<open>strconv.ParseFloat(s, 64)\<close>, \<open>None\<close> when it returns an error\<close>
  Sprintf_f :: "nat \<Rightarrow> nat \<Rightarrow> 'f \<Rightarrow> string"
    \<comment> \<open>\<open>fmt.Sprintf("%w.pf", x)\<close> for a width \<open>w\<close> (0 when the verb gives none) and a precision \<open>p\<close>\<close>

subsection \<open>Package strings\<close>

definition HasPrefix :: "string \<Rightarrow> string \<Rightarrow> bool" where
  "HasPrefix s p = (take (length p) s = p)"

definition HasSuffix :: "string \<Rightarrow> string \<Rightarrow> bool" where
  "HasSuffix s p = (length p \<le> length s \<and> drop (length s - length p) s = p)"

definition TrimPrefix :: "string \<Rightarrow> string \<Rightarrow> string" where
  "TrimPrefix s p = (if HasPrefix s p then drop (length p) s else s)"

fun Contains :: "string \<Rightarrow> string \<Rightarrow> bool" where
  "Contains [] sub = (sub = [])"
| "Contains (c # cs) sub = (HasPrefix (c # cs) sub \<or> Contains cs sub)"

text \<open>
  \<open>unicode.IsSpace\<close> holds of the six ASCII white-space characters, of U+0085 and
  U+00A0, and of U+1680, U+2000 to U+200A, U+2028, U+2029, U+202F, U+205F and U+3000.
  \<open>space_rune s\<close> is the number of bytes of the white-space rune that \<open>s\<close> starts with
  (in UTF-8), and 0 when \<open>s\<close> does not start with one.
\<close>

definition asciiSpace :: "char list" where
  "asciiSpace = [CHR 0x09, CHR 0x0A, CHR 0x0B, CHR 0x0C, CHR 0x0D, CHR 0x20]"

definition unicodeSpace2 :: "string list" where
  "unicodeSpace2 = [[CHR 0xC2, CHR 0x85], [CHR 0xC2, CHR 0xA0]]"

definition unicodeSpace3 :: "string list" where
  "unicodeSpace3 =
     [[CHR 0xE1, CHR 0x9A, CHR 0x80],
      [CHR 0xE2, CHR 0x80, CHR 0x80], [CHR 0xE2, CHR 0x80, CHR 0x81],
      [CHR 0xE2, CHR 0x80, CHR 0x82], [CHR 0xE2, CHR 0x80, CHR 0x83],
      [CHR 0xE2, CHR 0x80, CHR 0x84], [CHR 0xE2, CHR 0x80, CHR 0x85],
      [CHR 0xE2, CHR 0x80, CHR 0x86], [CHR 0xE2, CHR 0x80, CHR 0x87],
      [CHR 0xE2, CHR 0x80, CHR 0x88], [CHR 0xE2, CHR 0x80, CHR 0x89],
      [CHR 0xE2, CHR 0x80, CHR 0x8A], [CHR 0xE2, CHR 0x80, CHR 0xA8],
      [CHR 0xE2, CHR 0x80, CHR 0xA9], [CHR 0xE2, CHR 0x80, CHR 0xAF],
      [CHR 0xE2, CHR 0x81, CHR 0x9F], [CHR 0xE3, CHR 0x80, CHR 0x80]]"

definition space_rune :: "string \<Rightarrow> nat" where
  "space_rune s =
     (if s = [] then 0
      else if hd s \<in> set asciiSpace then 1
      else if take 2 s \<in> set unicodeSpace2 then 2
      else if take 3 s \<in> set unicodeSpace3 then 3
      else 0)"

text \<open>The same from the end of the string: the bytes of a trailing white-space rune.\<close>

definition space_rune_last :: "string \<Rightarrow> nat" where
  "space_rune_last s =
     (if s = [] then 0
      else if last s \<in> set asciiSpace then 1
      else if 2 \<le> length s \<and> drop (length s - 2) s \<in> set unicodeSpace2 then 2
      else if 3 \<le> length s \<and> drop (length s - 3) s \<in> set unicodeSpace3 then 3
      else 0)"

fun TrimLeftSpace :: "string \<Rightarrow> string" where
  "TrimLeftSpace [] = []"
| "TrimLeftSpace (c # cs) =
     (if space_rune (c # cs) = 0 then c # cs
      else TrimLeftSpace (drop (space_rune (c # cs) - 1) cs))"

function TrimRightSpace :: "string \<Rightarrow> string" where
  "TrimRightSpace s =
     (if space_rune_last s = 0 then s
      else TrimRightSpace (take (length s - space_rune_last s) s))"
  by pat_completeness auto
termination
  by (relation "measure length") (auto simp: space_rune_last_def split: if_splits)

definition TrimSpace :: "string \<Rightarrow> string" where
  "TrimSpace s = TrimRightSpace (TrimLeftSpace s)"

text \<open>\<open>strings.Fields\<close>: the maximal runs of bytes between white-space runes.\<close>

fun Fields_from :: "string \<Rightarrow> string \<Rightarrow> string list" where
  "Fields_from field [] = (if field = [] then [] else [field])"
| "Fields_from field (c # cs) =
     (if space_rune (c # cs) = 0 then Fields_from (field @ [c]) cs
      else (if field = [] then [] else [field])
           @ Fields_from [] (drop (space_rune (c # cs) - 1) cs))"

definition Fields :: "string \<Rightarrow> string list" where
  "Fields s = Fields_from [] s"

text \<open>\<open>strings.Trim(s, cutset)\<close> for a cutset of one character.\<close>

definition Trim :: "string \<Rightarrow> char \<Rightarrow> string" where
  "Trim s c = rev (dropWhile (\<lambda>x. x = c) (rev (dropWhile (\<lambda>x. x = c) s)))"

text \<open>\<open>strings.SplitN(s, " ", 2)\<close>: split at the first space, if there is one.\<close>

definition SplitN2 :: "string \<Rightarrow> string list" where
  "SplitN2 s =
     (if CHR '' '' \<in> set s
      then [takeWhile (\<lambda>x. x \<noteq> CHR '' '') s, tl (dropWhile (\<lambda>x. x \<noteq> CHR '' '') s)]
      else [s])"

fun Join :: "string list \<Rightarrow> string \<Rightarrow> string" where
  "Join [] sep = []"
| "Join [x] sep = x"
| "Join (x # y # ys) sep = x @ sep @ Join (y # ys) sep"

subsection \<open>bufio.Scanner with the default line splitter\<close>

text \<open>
  \<open>split_lines\<close> cuts the content at line feeds; the text after the last line feed is
  a line when it is not empty.  The scanner then drops one trailing carriage return.
  A line that does not fit the scanner's buffer of \<open>MaxScanTokenSize\<close> bytes together
  with its line feed stops the scan with \<open>ErrTooLong\<close>.
\<close>

fun split_lines :: "string \<Rightarrow> string \<Rightarrow> string list" where
  "split_lines cur [] = (if cur = [] then [] else [cur])"
| "split_lines cur (c # cs) =
     (if c = CHR 0x0A then cur # split_lines [] cs else split_lines (cur @ [c]) cs)"

definition dropCR :: "string \<Rightarrow> string" where
  "dropCR l = (if l \<noteq> [] \<and> last l = CHR 0x0D then butlast l else l)"

definition MaxScanTokenSize :: int where
  "MaxScanTokenSize = 64 * 1024"

definition fits :: "string \<Rightarrow> bool" where
  "fits l = (int (length l) < MaxScanTokenSize)"

definition scanned :: "string \<Rightarrow> string list" where
  "scanned content = map dropCR (takeWhile fits (split_lines [] content))"

definition scanner_Err :: "string \<Rightarrow> error option" where
  "scanner_Err content =
     (if list_all fits (split_lines [] content) then None
      else Some (Error ''bufio.Scanner: token too long''))"

section \<open>Data model (package types)\<close>

record 'f AtomSite =
  Label :: string
  TypeSymbol :: string
  FractX :: "'f"
  FractY :: "'f"
  FractZ :: "'f"
  UIsoOrEquiv :: "'f"
  AdpType :: string

record SymmetryOperation =
  Sym_X :: string
  Sym_Y :: string
  Sym_Z :: string

text \<open>
  \<open>CIFFile\<close> has the single field \<open>DataBlock\<close>; the record has the fields of that
  struct.  A Go map is a partial function; a nil map and an empty map read alike.
\<close>

record 'f CIFFile =
  Name :: string
  CellLength :: "string \<rightharpoonup> 'f"
  CellAngle :: "string \<rightharpoonup> 'f"
  AtomSites :: "'f AtomSite list"
  Symmetry :: "SymmetryOperation list"
  Metadata :: "string \<rightharpoonup> string"

record 'f DFTBInput =
  Geometry_Periodic :: bool
  Geometry_LatticeVectors :: "'f list list"
  Geometry_Elements :: "string list"
  Geometry_Coordinates :: "'f list list"
  Hamiltonian_Method :: string
  Analysis_Forces :: bool
  Options_Fmax :: "'f"

record ServerConfig =
  Port :: int
  WorkDir :: string
  DFTBPath :: string
  MaxRequests :: int
  Timeout :: int

text \<open>The zero values \<open>types.CIFFile{}\<close>, \<open>types.AtomSite{}\<close> and \<open>types.SymmetryOperation{}\<close>.\<close>

definition CIFFile_zero :: "'f CIFFile" where
  "CIFFile_zero =
     \<lparr>Name = [], CellLength = Map.empty, CellAngle = Map.empty, AtomSites = [],
      Symmetry = [], Metadata = Map.empty\<rparr>"

definition AtomSite_zero :: "'f float64_ops \<Rightarrow> 'f AtomSite" where
  "AtomSite_zero F =
     \<lparr>Label = [], TypeSymbol = [], FractX = f0 F, FractY = f0 F, FractZ = f0 F,
      UIsoOrEquiv = f0 F, AdpType = []\<rparr>"

definition SymmetryOperation_zero :: SymmetryOperation where
  "SymmetryOperation_zero = \<lparr>Sym_X = [], Sym_Y = [], Sym_Z = []\<rparr>"

text \<open>Reading a key of a \<open>map[string]float64\<close>: the zero value when the key is absent.\<close>

definition index_map :: "'f float64_ops \<Rightarrow> (string \<rightharpoonup> 'f) \<Rightarrow> string \<Rightarrow> 'f" where
  "index_map F m k = (case m k of None \<Rightarrow> f0 F | Some v \<Rightarrow> v)"

section \<open>Structure parser (package parser)\<close>

subsection \<open>processLoopData and containsAllHeaders\<close>

definition containsAllHeaders :: "string list \<Rightarrow> string list \<Rightarrow> bool" where
  "containsAllHeaders headers required = list_all (\<lambda>req. req \<in> set headers) required"

definition atomSiteHeaders :: "string list" where
  "atomSiteHeaders =
     [''_atom_site_label'', ''_atom_site_type_symbol'', ''_atom_site_fract_x'',
      ''_atom_site_fract_y'', ''_atom_site_fract_z'']"

definition symmetryHeaders :: "string list" where
  "symmetryHeaders =
     [''_symmetry_equiv_pos_as_xyz_x'', ''_symmetry_equiv_pos_as_xyz_y'',
      ''_symmetry_equiv_pos_as_xyz_z'']"

text \<open>
  The body of the loop over the headers of one row: \<open>(header, row[i])\<close> for the
  indices \<open>i\<close> below the length of the row.
\<close>

definition atom_column :: "'f float64_ops \<Rightarrow> 'f AtomSite \<Rightarrow> string \<times> string \<Rightarrow> 'f AtomSite" where
  "atom_column F atomSite hv =
     (let header = fst hv; value = TrimSpace (snd hv) in
      if header = ''_atom_site_label'' then atomSite\<lparr>Label := value\<rparr>
      else if header = ''_atom_site_type_symbol'' then atomSite\<lparr>TypeSymbol := value\<rparr>
      else if header = ''_atom_site_fract_x'' then
        (case ParseFloat F value of Some val \<Rightarrow> atomSite\<lparr>FractX := val\<rparr> | None \<Rightarrow> atomSite)
      else if header = ''_atom_site_fract_y'' then
        (case ParseFloat F value of Some val \<Rightarrow> atomSite\<lparr>FractY := val\<rparr> | None \<Rightarrow> atomSite)
      else if header = ''_atom_site_fract_z'' then
        (case ParseFloat F value of Some val \<Rightarrow> atomSite\<lparr>FractZ := val\<rparr> | None \<Rightarrow> atomSite)
      else if header = ''_atom_site_u_iso_or_equiv'' then
        (case ParseFloat F value of Some val \<Rightarrow> atomSite\<lparr>UIsoOrEquiv := val\<rparr> | None \<Rightarrow> atomSite)
      else if header = ''_atom_site_adp_type'' then atomSite\<lparr>AdpType := value\<rparr>
      else atomSite)"

definition atom_row :: "'f float64_ops \<Rightarrow> string list \<Rightarrow> string list \<Rightarrow> 'f AtomSite" where
  "atom_row F headers row = foldl (atom_column F) (AtomSite_zero F) (zip headers row)"

definition symmetry_column :: "SymmetryOperation \<Rightarrow> string \<times> string \<Rightarrow> SymmetryOperation" where
  "symmetry_column symmetry hv =
     (let header = fst hv; value = TrimSpace (snd hv) in
      if header = ''_symmetry_equiv_pos_as_xyz_x'' then symmetry\<lparr>Sym_X := value\<rparr>
      else if header = ''_symmetry_equiv_pos_as_xyz_y'' then symmetry\<lparr>Sym_Y := value\<rparr>
      else if header = ''_symmetry_equiv_pos_as_xyz_z'' then symmetry\<lparr>Sym_Z := value\<rparr>
      else symmetry)"

definition symmetry_row :: "string list \<Rightarrow> string list \<Rightarrow> SymmetryOperation" where
  "symmetry_row headers row = foldl symmetry_column SymmetryOperation_zero (zip headers row)"

text \<open>
  \<open>processLoopData\<close> appends to the slices of the data block it is given through a
  pointer; the pointer is \<open>None\<close> when nil, and is dereferenced only when a row is
  appended.
\<close>

definition processLoopData ::
  "'f float64_ops \<Rightarrow> 'f CIFFile option \<Rightarrow> string list \<Rightarrow> string list list
     \<Rightarrow> error + 'f CIFFile option" where
  "processLoopData F dataBlock headers data =
     (let atoms =
        (if containsAllHeaders headers atomSiteHeaders \<and> data \<noteq> [] then
           (case dataBlock of
              None \<Rightarrow> Inl NilPointerDereference
            | Some d \<Rightarrow> Inr (Some (d\<lparr>AtomSites := AtomSites d @ map (atom_row F headers) data\<rparr>)))
         else Inr dataBlock)
      in case atoms of
           Inl e \<Rightarrow> Inl e
         | Inr dataBlock' \<Rightarrow>
             (if containsAllHeaders headers symmetryHeaders \<and> data \<noteq> [] then
                (case dataBlock' of
                   None \<Rightarrow> Inl NilPointerDereference
                 | Some d \<Rightarrow>
                     Inr (Some (d\<lparr>Symmetry := Symmetry d @ map (symmetry_row headers) data\<rparr>)))
              else Inr dataBlock'))"

subsection \<open>ParseFromString\<close>

text \<open>The variables of \<open>ParseFromString\<close> that live across the lines of the content.\<close>

record 'f parser_vars =
  cif :: "'f CIFFile"
  currentDataBlock :: "'f CIFFile option"
  inLoop :: bool
  loopHeaders :: "string list"
  loopData :: "string list list"

definition parser_init :: "'f parser_vars" where
  "parser_init =
     \<lparr>cif = CIFFile_zero, currentDataBlock = None, inLoop = False, loopHeaders = [],
      loopData = []\<rparr>"

definition strip_quotes :: "string \<Rightarrow> string" where
  "strip_quotes value =
     (if HasPrefix value [CHR 0x22] \<and> HasSuffix value [CHR 0x22] then Trim value (CHR 0x22)
      else if HasPrefix value [CHR 0x27] \<and> HasSuffix value [CHR 0x27] then Trim value (CHR 0x27)
      else value)"

definition cell_length_keys :: "string list" where
  "cell_length_keys = [''_cell_length_a'', ''_cell_length_b'', ''_cell_length_c'']"

definition cell_angle_keys :: "string list" where
  "cell_angle_keys = [''_cell_angle_alpha'', ''_cell_angle_beta'', ''_cell_angle_gamma'']"

text \<open>One iteration of the scanning loop, on the text of one line.\<close>

definition parse_line ::
  "'f float64_ops \<Rightarrow> 'f parser_vars \<Rightarrow> string \<Rightarrow> error + 'f parser_vars" where
  "parse_line F v text =
     (let line = TrimSpace text in
      if line = [] \<or> HasPrefix line ''#'' then Inr v
      else if HasPrefix line ''data_'' then
        Inr (v\<lparr>cif := (case currentDataBlock v of Some d \<Rightarrow> d | None \<Rightarrow> cif v),
               currentDataBlock := Some (CIFFile_zero\<lparr>Name := TrimPrefix line ''data_''\<rparr>),
               inLoop := False, loopHeaders := [], loopData := []\<rparr>)
      else if HasPrefix line ''loop_'' then
        Inr (v\<lparr>inLoop := True, loopHeaders := [], loopData := []\<rparr>)
      else if inLoop v then
        (if HasPrefix line ''_'' then Inr (v\<lparr>loopHeaders := loopHeaders v @ [line]\<rparr>)
         else if \<not> HasPrefix line ''_'' \<and> line \<noteq> [] then
           (let fields = Fields line in
            if length fields = length (loopHeaders v)
            then Inr (v\<lparr>loopData := loopData v @ [fields]\<rparr>)
            else Inr v)
         else
           (case processLoopData F (currentDataBlock v) (loopHeaders v) (loopData v) of
              Inl e \<Rightarrow> Inl e
            | Inr d \<Rightarrow> Inr (v\<lparr>inLoop := False, currentDataBlock := d\<rparr>)))
      else if Contains line '' '' \<and> \<not> HasPrefix line ''_'' then
        (let parts = SplitN2 line in
         if length parts = 2 then
           (let key = TrimSpace (parts ! 0); value = strip_quotes (TrimSpace (parts ! 1)) in
            case currentDataBlock v of
              None \<Rightarrow> Inl NilPointerDereference
            | Some d \<Rightarrow>
                Inr (v\<lparr>currentDataBlock := Some (d\<lparr>Metadata := (Metadata d)(key \<mapsto> value)\<rparr>)\<rparr>))
         else Inr v)
      else if HasPrefix line ''_'' then
        (let parts = SplitN2 line in
         if length parts = 2 then
           (let key = TrimSpace (parts ! 0); value = strip_quotes (TrimSpace (parts ! 1)) in
            if key \<in> set cell_length_keys then
              (case ParseFloat F value of
                 None \<Rightarrow> Inr v
               | Some val \<Rightarrow>
                   (case currentDataBlock v of
                      None \<Rightarrow> Inl NilPointerDereference
                    | Some d \<Rightarrow>
                        Inr (v\<lparr>currentDataBlock :=
                                 Some (d\<lparr>CellLength := (CellLength d)(key \<mapsto> val)\<rparr>)\<rparr>)))
            else if key \<in> set cell_angle_keys then
              (case ParseFloat F value of
                 None \<Rightarrow> Inr v
               | Some val \<Rightarrow>
                   (case currentDataBlock v of
                      None \<Rightarrow> Inl NilPointerDereference
                    | Some d \<Rightarrow>
                        Inr (v\<lparr>currentDataBlock :=
                                 Some (d\<lparr>CellAngle := (CellAngle d)(key \<mapsto> val)\<rparr>)\<rparr>)))
            else Inr v)
         else Inr v)
      else Inr v)"

fun parse_lines ::
  "'f float64_ops \<Rightarrow> 'f parser_vars \<Rightarrow> string list \<Rightarrow> error + 'f parser_vars" where
  "parse_lines F v [] = Inr v"
| "parse_lines F v (text # rest) =
     (case parse_line F v text of Inl e \<Rightarrow> Inl e | Inr v' \<Rightarrow> parse_lines F v' rest)"

definition ParseFromString :: "'f float64_ops \<Rightarrow> string \<Rightarrow> error + 'f CIFFile" where
  "ParseFromString F content =
     (case parse_lines F parser_init (scanned content) of
        Inl e \<Rightarrow> Inl e
      | Inr v \<Rightarrow>
          (case scanner_Err content of
             Some (Error m) \<Rightarrow> Inl (Error (''error reading CIF content: '' @ m))
           | Some e \<Rightarrow> Inl e
           | None \<Rightarrow>
               Inr (case currentDataBlock v of Some d \<Rightarrow> d | None \<Rightarrow> cif v)))"

text \<open>\<open>ValidateCIFContent\<close> returns an \<open>error\<close> or nil (\<open>None\<close>).\<close>

definition ValidateCIFContent :: "string \<Rightarrow> error option" where
  "ValidateCIFContent content =
     (if \<not> Contains content ''data_'' then Some (Error ''missing data block declaration'')
      else if \<not> Contains content ''_cell_length_a'' \<and> \<not> Contains content ''_cell.angle_alpha''
        then Some (Error ''missing cell parameters'')
      else if \<not> Contains content ''_atom_site'' \<and> \<not> Contains content ''loop_''
        then Some (Error ''missing atom site information'')
      else None)"

subsection \<open>ToDFTBInput\<close>

text \<open>
  The loop of \<open>ToDFTBInput\<close> over the atom sites, with its three loop-carried values:
  the set \<open>elementMap\<close>, \<open>input.Geometry.Elements\<close> and \<open>input.Geometry.Coordinates\<close>.
\<close>

fun extract_atoms ::
  "'f float64_ops \<Rightarrow> 'f \<Rightarrow> 'f \<Rightarrow> 'f \<Rightarrow> 'f AtomSite list \<Rightarrow> (string \<Rightarrow> bool)
     \<Rightarrow> string list \<Rightarrow> 'f list list \<Rightarrow> string list \<times> 'f list list" where
  "extract_atoms F a b c [] elementMap elements coordinates = (elements, coordinates)"
| "extract_atoms F a b c (atom # atoms) elementMap elements coordinates =
     (let x = fmul F (FractX atom) a;
          y = fmul F (FractY atom) b;
          z = fmul F (FractZ atom) c
      in if \<not> elementMap (TypeSymbol atom)
         then extract_atoms F a b c atoms (elementMap(TypeSymbol atom := True))
                (elements @ [TypeSymbol atom]) (coordinates @ [[x, y, z]])
         else extract_atoms F a b c atoms elementMap elements (coordinates @ [[x, y, z]]))"

text \<open>
  The structure is passed by pointer (\<open>None\<close> is nil).  The three angles that the
  source converts to radians are not used afterwards and are left out.
\<close>

definition ToDFTBInput ::
  "'f float64_ops \<Rightarrow> 'f CIFFile option \<Rightarrow> string \<Rightarrow> 'f \<Rightarrow> error + 'f DFTBInput" where
  "ToDFTBInput F cifp method fmax =
     (case cifp of
        None \<Rightarrow> Inl (Error ''invalid CIF file'')
      | Some c0 \<Rightarrow>
          if Name c0 = [] then Inl (Error ''invalid CIF file'')
          else
            (let a = index_map F (CellLength c0) ''_cell_length_a'';
                 b = index_map F (CellLength c0) ''_cell_length_b'';
                 c = index_map F (CellLength c0) ''_cell_length_c'';
                 ec = extract_atoms F a b c (AtomSites c0) (\<lambda>_. False) [] []
             in Inr \<lparr>Geometry_Periodic = True,
                     Geometry_LatticeVectors = [[a, f0 F, f0 F], [f0 F, b, f0 F], [f0 F, f0 F, c]],
                     Geometry_Elements = fst ec,
                     Geometry_Coordinates = snd ec,
                     Hamiltonian_Method = method,
                     Analysis_Forces = True,
                     Options_Fmax = fmax\<rparr>))"

text \<open>
  A content declares a data block when one of its lines, trimmed, starts with \<open>data_\<close>:
  the test \<open>ParseFromString\<close> makes on every line.
\<close>

definition declares_data_block :: "string \<Rightarrow> bool" where
  "declares_data_block content =
     list_ex (\<lambda>l. HasPrefix (TrimSpace (dropCR l)) ''data_'') (split_lines [] content)"

text \<open>
  Outside a loop two kinds of lines store a value into the current data block: a line
  with a space that does not start with an underscore (a metadata pair), and a line
  that starts with an underscore, splits in two at its first space, has one of the six
  cell keys and a value that parses as a float.  \<open>writes_before_loop\<close> tells whether
  such a line comes, among lines that declare no data block, before the first line
  that opens a loop.
\<close>

definition writes_block :: "'f float64_ops \<Rightarrow> string \<Rightarrow> bool" where
  "writes_block F line =
     (if Contains line '' '' \<and> \<not> HasPrefix line ''_'' then length (SplitN2 line) = 2
      else HasPrefix line ''_'' \<and> length (SplitN2 line) = 2 \<and>
           (TrimSpace (SplitN2 line ! 0) \<in> set cell_length_keys \<or>
            TrimSpace (SplitN2 line ! 0) \<in> set cell_angle_keys) \<and>
           ParseFloat F (strip_quotes (TrimSpace (SplitN2 line ! 1))) \<noteq> None)"

fun writes_before_loop :: "'f float64_ops \<Rightarrow> string list \<Rightarrow> bool" where
  "writes_before_loop F [] = False"
| "writes_before_loop F (text # rest) =
     (if TrimSpace text = [] \<or> HasPrefix (TrimSpace text) ''#'' then writes_before_loop F rest
      else if HasPrefix (TrimSpace text) ''loop_'' then False
      else writes_block F (TrimSpace text) \<or> writes_before_loop F rest)"

text \<open>
  The invariant of the scanning loop used below: neither the result structure nor the
  current data block holds an atom site or a symmetry operator.
\<close>

definition no_sites :: "'f parser_vars \<Rightarrow> bool" where
  "no_sites v =
     (AtomSites (cif v) = [] \<and> Symmetry (cif v) = [] \<and>
      (case currentDataBlock v of None \<Rightarrow> True | Some d \<Rightarrow> AtomSites d = [] \<and> Symmetry d = []))"

text \<open>
  A second invariant of the scanning loop: the maps of cell lengths and cell angles
  hold no other keys than the six recognised ones.
\<close>

definition cell_keys_only :: "'f CIFFile \<Rightarrow> bool" where
  "cell_keys_only c =
     (dom (CellLength c) \<subseteq> set cell_length_keys \<and> dom (CellAngle c) \<subseteq> set cell_angle_keys)"

definition cell_keys_inv :: "'f parser_vars \<Rightarrow> bool" where
  "cell_keys_inv v =
     (cell_keys_only (cif v) \<and>
      (case currentDataBlock v of None \<Rightarrow> True | Some d \<Rightarrow> cell_keys_only d))"

section \<open>Formatting and transport encoding\<close>

text \<open>\<open>fmt.Sprintf("%d", n)\<close>: the decimal digits of an integer, with a minus sign.\<close>

function digits :: "int \<Rightarrow> string" where
  "digits n =
     (if n < 10 then [''0123456789'' ! nat n]
      else digits (n div 10) @ [''0123456789'' ! nat (n mod 10)])"
  by pat_completeness auto
termination
  by (relation "measure nat") auto

definition Sprintf_d :: "int \<Rightarrow> string" where
  "Sprintf_d n = (if n < 0 then ''-'' @ digits (- n) else digits n)"

subsection \<open>base64.StdEncoding\<close>

definition encodeStd :: string where
  "encodeStd = ''ABCDEFGHIJKLMNOPQRSTUVWXYZabcdefghijklmnopqrstuvwxyz0123456789+/''"

fun encode_bytes :: "nat list \<Rightarrow> string" where
  "encode_bytes [] = []"
| "encode_bytes [a] =
     [encodeStd ! (a div 4), encodeStd ! ((a mod 4) * 16), CHR ''='', CHR ''='']"
| "encode_bytes [a, b] =
     [encodeStd ! (a div 4), encodeStd ! ((a mod 4) * 16 + b div 16),
      encodeStd ! ((b mod 16) * 4), CHR ''='']"
| "encode_bytes (a # b # c # rest) =
     [encodeStd ! (a div 4), encodeStd ! ((a mod 4) * 16 + b div 16),
      encodeStd ! ((b mod 16) * 4 + c div 64), encodeStd ! (c mod 64)] @ encode_bytes rest"

definition EncodeToString :: "string \<Rightarrow> string" where
  "EncodeToString s = encode_bytes (map of_char s)"

text \<open>
  \<open>DecodeString\<close> skips carriage returns and line feeds wherever they stand, reads the
  other characters four at a time, accepts padding only to complete the last group and
  only before the end of the input, and reports the position of the first offending
  byte (\<open>CorruptInputError\<close>).  The bits of a padded group that belong to no output
  byte are not checked.  \<open>quantum\<close> gives the bytes of a group of two to four 6-bit
  values: the three bytes of \<open>d0<<18 | d1<<12 | d2<<6 | d3\<close>, cut to the group's length.
  \<open>decode_from n si dbuf src\<close> reads the rest \<open>src\<close> of an input of \<open>n\<close> bytes from
  position \<open>si\<close>, with the values \<open>dbuf\<close> of the group in progress.
\<close>

definition decodeMap :: "char \<Rightarrow> nat option" where
  "decodeMap c = map_of (zip encodeStd [0 ..< 64]) c"

definition newline :: "char \<Rightarrow> bool" where
  "newline c = (c = CHR 0x0A \<or> c = CHR 0x0D)"

definition quantum :: "nat list \<Rightarrow> string" where
  "quantum dbuf =
     (let d = dbuf @ replicate (4 - length dbuf) 0
      in take (length dbuf - 1)
           [char_of (d ! 0 * 4 + d ! 1 div 16),
            char_of ((d ! 1 mod 16) * 16 + d ! 2 div 4),
            char_of ((d ! 2 mod 4) * 64 + d ! 3)])"

definition padding ::
  "nat \<Rightarrow> nat \<Rightarrow> nat list \<Rightarrow> string \<Rightarrow> nat + string" where
  "padding n si dbuf src =
     (if length dbuf < 2 then Inl (si - 1)
      else
        (let r1 = (if length dbuf = 2
                   then (let src1 = dropWhile newline src;
                             si1 = si + length (takeWhile newline src)
                         in if src1 = [] then Inl n
                            else if hd src1 \<noteq> CHR ''='' then Inl (si1 - 1)
                            else Inr (si1 + 1, tl src1))
                   else Inr (si, src))
         in case r1 of
              Inl e \<Rightarrow> Inl e
            | Inr (si2, src2) \<Rightarrow>
                if dropWhile newline src2 \<noteq> []
                then Inl (si2 + length (takeWhile newline src2))
                else Inr (quantum dbuf)))"

fun decode_from :: "nat \<Rightarrow> nat \<Rightarrow> nat list \<Rightarrow> string \<Rightarrow> nat + string" where
  "decode_from n si dbuf [] = (if dbuf = [] then Inr [] else Inl (si - length dbuf))"
| "decode_from n si dbuf (c # cs) =
     (case decodeMap c of
        Some v \<Rightarrow>
          if length dbuf = 3
          then (case decode_from n (si + 1) [] cs of
                  Inl e \<Rightarrow> Inl e
                | Inr out \<Rightarrow> Inr (quantum (dbuf @ [v]) @ out))
          else decode_from n (si + 1) (dbuf @ [v]) cs
      | None \<Rightarrow>
          if newline c then decode_from n (si + 1) dbuf cs
          else if c \<noteq> CHR ''='' then Inl si
          else padding n (si + 1) dbuf cs)"

definition DecodeString :: "string \<Rightarrow> error + string" where
  "DecodeString s =
     (case decode_from (length s) 0 [] s of
        Inl pos \<Rightarrow> Inl (Error (''illegal base64 data at input byte '' @ Sprintf_d (int pos)))
      | Inr decoded \<Rightarrow> Inr decoded)"

definition ParseFromBase64 :: "'f float64_ops \<Rightarrow> string \<Rightarrow> error + 'f CIFFile" where
  "ParseFromBase64 F base64Content =
     (case DecodeString base64Content of
        Inl (Error m) \<Rightarrow> Inl (Error (''failed to decode base64 content: '' @ m))
      | Inl e \<Rightarrow> Inl e
      | Inr decoded \<Rightarrow> ParseFromString F decoded)"

section \<open>The world outside the process\<close>

subsection \<open>filepath.Join and filepath.Clean (Unix)\<close>

text \<open>
  \<open>Clean\<close> works on the elements of the path between slashes: it drops the empty
  elements and the \<open>.\<close> elements, lets a \<open>..\<close> element remove the element before it,
  drops a \<open>..\<close> that would climb above the root, and keeps a \<open>..\<close> that would climb
  above the start of a relative path.  The empty result is \<open>.\<close>.  \<open>Join\<close> of two
  elements cleans what remains after the leading empty elements, joined by a slash.
\<close>

fun split_slash :: "string \<Rightarrow> string \<Rightarrow> string list" where
  "split_slash cur [] = [cur]"
| "split_slash cur (c # cs) =
     (if c = CHR ''/'' then cur # split_slash [] cs else split_slash (cur @ [c]) cs)"

fun clean_elements :: "bool \<Rightarrow> string list \<Rightarrow> string list \<Rightarrow> string list" where
  "clean_elements rooted out [] = out"
| "clean_elements rooted out (e # es) =
     (if e = [] \<or> e = ''.'' then clean_elements rooted out es
      else if e = ''..'' then
        (if out \<noteq> [] \<and> last out \<noteq> ''..'' then clean_elements rooted (butlast out) es
         else if \<not> rooted then clean_elements rooted (out @ [''..'']) es
         else clean_elements rooted out es)
      else clean_elements rooted (out @ [e]) es)"

definition Clean :: "string \<Rightarrow> string" where
  "Clean path =
     (if path = [] then ''.''
      else
        (let rooted = (hd path = CHR ''/'');
             out = clean_elements rooted [] (split_slash [] path)
         in if rooted then ''/'' @ Join out ''/''
            else if out = [] then ''.''
            else Join out ''/''))"

definition filepath_Join :: "string \<Rightarrow> string \<Rightarrow> string" where
  "filepath_Join a b =
     (if a \<noteq> [] then Clean (a @ ''/'' @ b)
      else if b \<noteq> [] then Clean b
      else [])"

subsection \<open>The file system\<close>

text \<open>
  What the service observes of the file system and how its writes change it.
  \<open>entry\<close> tells whether a file or a directory exists at a path and \<open>contents\<close> gives
  the content of a file.  \<open>os.Stat\<close> has three outcomes: no error, an error for which
  \<open>os.IsNotExist\<close> holds, and any other error (a name that is too long, an element of
  the path that is not a directory, a directory that may not be searched); \<open>Stat_error\<close>
  gives the paths on which it fails in that third way.  The errors of the other calls
  are given by path as well; a read with no error returns the content last written.
\<close>

datatype stat_result = StatOk | StatNotExist | StatOtherError

record filesystem =
  entry :: "string \<Rightarrow> bool"
  contents :: "string \<rightharpoonup> string"
  Stat_error :: "string \<rightharpoonup> string"
  ReadFile_error :: "string \<rightharpoonup> string"
  WriteFile_error :: "string \<rightharpoonup> string"
  MkdirAll_error :: "string \<rightharpoonup> string"

definition os_Stat :: "filesystem \<Rightarrow> string \<Rightarrow> stat_result" where
  "os_Stat fs name =
     (case Stat_error fs name of
        Some e \<Rightarrow> StatOtherError
      | None \<Rightarrow> if entry fs name then StatOk else StatNotExist)"

definition IsNotExist :: "stat_result \<Rightarrow> bool" where
  "IsNotExist r = (r = StatNotExist)"

definition os_ReadFile :: "filesystem \<Rightarrow> string \<Rightarrow> string + string" where
  "os_ReadFile fs name =
     (case ReadFile_error fs name of
        Some e \<Rightarrow> Inl e
      | None \<Rightarrow>
          (case contents fs name of
             None \<Rightarrow> Inl (''open '' @ name @ '': no such file or directory'')
           | Some data \<Rightarrow> Inr data))"

definition os_WriteFile :: "filesystem \<Rightarrow> string \<Rightarrow> string \<Rightarrow> string option \<times> filesystem" where
  "os_WriteFile fs name data =
     (case WriteFile_error fs name of
        Some e \<Rightarrow> (Some e, fs)
      | None \<Rightarrow> (None, fs\<lparr>entry := (entry fs)(name := True),
                             contents := (contents fs)(name \<mapsto> data)\<rparr>))"

definition os_MkdirAll :: "filesystem \<Rightarrow> string \<Rightarrow> string option \<times> filesystem" where
  "os_MkdirAll fs path =
     (case MkdirAll_error fs path of
        Some e \<Rightarrow> (Some e, fs)
      | None \<Rightarrow> (None, fs\<lparr>entry := (entry fs)(path := True)\<rparr>))"

subsection \<open>The engine process and the clock\<close>

text \<open>
  A run of the engine, as \<open>runDFTBCalculation\<close> can observe it.  Times are in
  nanoseconds from the moment the wait begins.  \<open>started_at\<close> is the time at which
  \<open>cmd.Process\<close> is set (\<open>None\<close> when the process never starts), \<open>finished_at\<close> the
  time at which \<open>cmd.Run()\<close> delivers its error (\<open>None\<close> when it never does),
  \<open>exit_error\<close> that error (\<open>None\<close> for nil), \<open>timer_first\<close> the case the \<open>select\<close> takes
  when the timer and the result are ready together, and \<open>files_at t\<close> the file system
  at time \<open>t\<close>.
\<close>

record engine_run =
  started_at :: "int option"
  finished_at :: "int option"
  exit_error :: "string option"
  timer_first :: bool
  files_at :: "int \<Rightarrow> filesystem"

text \<open>
  The rest of the environment of one execution: the date
  \<open>time.Now().Format("2006-01-02")\<close>, the order in which each of the two \<open>range\<close> loops
  over a map visits the keys (Go leaves it unspecified), and the run of the command at
  a path in a working directory, started in a file system.
\<close>

record env =
  today :: string
  range_CellLength :: "string list"
  range_CellAngle :: "string list"
  run_command :: "string \<Rightarrow> string \<Rightarrow> filesystem \<Rightarrow> engine_run"

text \<open>
  The arithmetic of \<open>int64\<close>, in which \<open>time.Duration(Timeout) * time.Second\<close> is
  computed: the product wraps around.  A timer of a duration that is not positive
  fires at once.
\<close>

definition int64 :: "int \<Rightarrow> int" where
  "int64 n = (n + 9223372036854775808) mod 18446744073709551616 - 9223372036854775808"

definition Second :: int where
  "Second = 1000000000"

definition timer_fires_at :: "int \<Rightarrow> int" where
  "timer_fires_at d = max d 0"

text \<open>
  The \<open>select\<close> on the timer and on the result of the run: the time at which the result
  is taken, or \<open>None\<close> when the case of the timer is taken.
\<close>

definition select_done :: "engine_run \<Rightarrow> int \<Rightarrow> int option" where
  "select_done run fire =
     (case finished_at run of
        None \<Rightarrow> None
      | Some t \<Rightarrow> if t < fire \<or> (t = fire \<and> \<not> timer_first run) then Some t else None)"

text \<open>The pairs a \<open>range\<close> loop visits, in the order of the keys it is given.\<close>

definition range_map :: "string list \<Rightarrow> (string \<rightharpoonup> 'v) \<Rightarrow> (string \<times> 'v) list" where
  "range_map order m = List.map_filter (\<lambda>k. map_option (Pair k) (m k)) order"

text \<open>An order of a \<open>range\<close> loop over \<open>m\<close> lists every key of \<open>m\<close> once.\<close>

definition range_order :: "string list \<Rightarrow> (string \<rightharpoonup> 'v) \<Rightarrow> bool" where
  "range_order order m = (distinct order \<and> set order = dom m)"

section \<open>Requests, responses and the runner (packages types and dftb)\<close>

record 'f OptimizationRequest =
  RequestID :: string
  StructureFile :: string
  Method :: string
  Fmax :: "'f"
  OriginalFilename :: string

text \<open>
  A value of \<open>map[string]interface{}\<close> as the runner builds it.  The entries of a map
  are listed in the order of the composite literal; a key is looked up with \<open>map_of\<close>.
\<close>

datatype 'f json =
    String string
  | Bool bool
  | Float "'f"
  | Strings "string list"
  | Object "(string \<times> 'f json) list"

record 'f OptimizationResponse =
  Status :: string
  Response_RequestID :: string
  ParsedData :: "(string \<times> 'f json) list"
  OutputCIFPath :: string
  ErrorMessage :: string

text \<open>\<open>DFTBRunner\<close>: its parser has no state.\<close>

record DFTBRunner =
  config :: ServerConfig
  workDir :: string

definition NewDFTBRunner :: "ServerConfig \<Rightarrow> DFTBRunner" where
  "NewDFTBRunner c = \<lparr>config = c, workDir = WorkDir c\<rparr>"

subsection \<open>Input files\<close>

definition angular_momentum :: "string \<Rightarrow> string" where
  "angular_momentum element =
     (if element = ''H'' then ''    H = s\<newline>''
      else if element \<in> set [''C'', ''N'', ''O'', ''F''] then ''    '' @ element @ '' = p\<newline>''
      else if element \<in> set [''Si'', ''P'', ''S'', ''Cl''] then ''    '' @ element @ '' = d\<newline>''
      else ''    '' @ element @ '' = p\<newline>'')"

definition generateDFTBInputContent :: "'f float64_ops \<Rightarrow> 'f DFTBInput \<Rightarrow> string" where
  "generateDFTBInputContent F input =
     ''Geometry = GenFormat {\<newline>'' @
     ''  <<< geometry.gen\<newline>'' @
     ''}\<newline>\<newline>'' @
     ''Hamiltonian = '' @ Hamiltonian_Method input @ '' {\<newline>'' @
     ''  MaxAngularMomentum {\<newline>'' @
     concat (map angular_momentum (Geometry_Elements input)) @
     ''  }\<newline>'' @
     ''}\<newline>\<newline>'' @
     ''Driver = GeometryOptimization {\<newline>'' @
     ''  Convergence = Grad {\<newline>'' @
     ''    MaxForceComponent = '' @ Sprintf_f F 0 6 (Options_Fmax input) @ ''\<newline>'' @
     ''  }\<newline>'' @
     ''  MaxSteps = 1000\<newline>'' @
     ''  MovedAtoms = 1:-1\<newline>'' @
     ''}\<newline>\<newline>'' @
     ''Analysis = {\<newline>'' @
     (if Analysis_Forces input then ''  CalculateForces = Yes\<newline>'' else []) @
     ''  PrintEigenvalues = Yes\<newline>'' @
     ''  PrintBandStructure = No\<newline>'' @
     ''}\<newline>\<newline>'' @
     ''Options {\<newline>'' @
     ''  WriteDetailedOut = Yes\<newline>'' @
     ''  WriteResultsTag = Yes\<newline>'' @
     ''}\<newline>''"

text \<open>
  One line of the geometry file, for the coordinate at index \<open>i\<close>.  The remainder by
  the number of elements panics when there is none, and so does the access to a
  component that the coordinate does not have.
\<close>

definition coordinate_line ::
  "'f float64_ops \<Rightarrow> string list \<Rightarrow> nat \<Rightarrow> 'f list \<Rightarrow> error + string" where
  "coordinate_line F elements i coord =
     (if length elements = 0 then Inl IntegerDivideByZero
      else
        (let elementIndex = i mod length elements;
             element = elements ! elementIndex
         in if length coord < 3 then Inl IndexOutOfRange
            else Inr (element @ '' '' @ Sprintf_f F 12 8 (coord ! 0) @ '' '' @
                      Sprintf_f F 12 8 (coord ! 1) @ '' '' @
                      Sprintf_f F 12 8 (coord ! 2) @ ''\<newline>'')))"

fun coordinate_lines ::
  "'f float64_ops \<Rightarrow> string list \<Rightarrow> nat \<Rightarrow> 'f list list \<Rightarrow> error + string list" where
  "coordinate_lines F elements i [] = Inr []"
| "coordinate_lines F elements i (coord # rest) =
     (case coordinate_line F elements i coord of
        Inl e \<Rightarrow> Inl e
      | Inr l \<Rightarrow>
          (case coordinate_lines F elements (Suc i) rest of
             Inl e \<Rightarrow> Inl e
           | Inr ls \<Rightarrow> Inr (l # ls)))"

text \<open>
  The lines of the geometry file: the header, the element types, and one line per
  coordinate.  \<open>generateGeometryContent\<close> is their concatenation.
\<close>

definition geometry_lines :: "'f float64_ops \<Rightarrow> 'f DFTBInput \<Rightarrow> error + string list" where
  "geometry_lines F input =
     (case coordinate_lines F (Geometry_Elements input) 0 (Geometry_Coordinates input) of
        Inl e \<Rightarrow> Inl e
      | Inr ls \<Rightarrow>
          Inr ((Sprintf_d (int (length (Geometry_Coordinates input))) @ '' F\<newline>'') #
               (Join (Geometry_Elements input) '' '' @ ''\<newline>'') # ls))"

definition generateGeometryContent :: "'f float64_ops \<Rightarrow> 'f DFTBInput \<Rightarrow> error + string" where
  "generateGeometryContent F input =
     (case geometry_lines F input of Inl e \<Rightarrow> Inl e | Inr ls \<Rightarrow> Inr (concat ls))"

definition generateInputFiles ::
  "'f float64_ops \<Rightarrow> filesystem \<Rightarrow> string \<Rightarrow> 'f DFTBInput \<Rightarrow> error option \<times> filesystem" where
  "generateInputFiles F fs dir input =
     (let inputContent = generateDFTBInputContent F input;
          inputPath = filepath_Join dir ''dftb_in.hsd''
      in case os_WriteFile fs inputPath inputContent of
           (Some e, fs1) \<Rightarrow> (Some (Error (''failed to write input file: '' @ e)), fs1)
         | (None, fs1) \<Rightarrow>
             (case generateGeometryContent F input of
                Inl e \<Rightarrow> (Some e, fs1)
              | Inr geometryContent \<Rightarrow>
                  (let geometryPath = filepath_Join dir ''geometry.gen''
                   in case os_WriteFile fs1 geometryPath geometryContent of
                        (Some e, fs2) \<Rightarrow> (Some (Error (''failed to write geometry file: '' @ e)), fs2)
                      | (None, fs2) \<Rightarrow> (None, fs2))))"

subsection \<open>Running the engine\<close>

text \<open>
  The result of \<open>runDFTBCalculation\<close> comes with the file system at the time it
  returns and with a flag telling whether \<open>cmd.Process.Kill()\<close> was called: it is
  called in the case of the timer, when \<open>cmd.Process\<close> is set by then.
\<close>

record run_result =
  returned :: "error + string"
  killed :: bool
  after :: filesystem

definition runDFTBCalculation ::
  "DFTBRunner \<Rightarrow> env \<Rightarrow> filesystem \<Rightarrow> string \<Rightarrow> string \<Rightarrow> run_result" where
  "runDFTBCalculation r E fs dir requestID =
     (if IsNotExist (os_Stat fs (DFTBPath (config r))) then
        \<lparr>returned = Inl (Error (''DFTB+ executable not found at: '' @ DFTBPath (config r))),
         killed = False, after = fs\<rparr>
      else
        (let timeout = int64 (Timeout (config r) * Second);
             fire = timer_fires_at timeout;
             run = run_command E (DFTBPath (config r)) dir fs
         in case select_done run fire of
              None \<Rightarrow>
                \<lparr>returned = Inl (Error (''DFTB+ calculation timed out after '' @
                                         Sprintf_d (Timeout (config r)) @ '' seconds'')),
                 killed = (case started_at run of None \<Rightarrow> False | Some s \<Rightarrow> s \<le> fire),
                 after = files_at run fire\<rparr>
            | Some t \<Rightarrow>
                (case exit_error run of
                   Some err \<Rightarrow>
                     \<lparr>returned = Inl (Error (''DFTB+ calculation failed: '' @ err)),
                      killed = False, after = files_at run t\<rparr>
                 | None \<Rightarrow>
                     (let outputPath = filepath_Join dir ''dftb_out.hsd''
                      in if IsNotExist (os_Stat (files_at run t) outputPath)
                         then \<lparr>returned = Inl (Error ''DFTB+ output file not found''),
                               killed = False, after = files_at run t\<rparr>
                         else \<lparr>returned = Inr outputPath, killed = False,
                               after = files_at run t\<rparr>))))"

subsection \<open>Interpreting the output\<close>

definition parseDFTBOutput ::
  "'f float64_ops \<Rightarrow> filesystem \<Rightarrow> string \<Rightarrow> error + (string \<times> 'f json) list" where
  "parseDFTBOutput F fs outputPath =
     (case os_ReadFile fs outputPath of
        Inl e \<Rightarrow> Inl (Error (''failed to read output file: '' @ e))
      | Inr content \<Rightarrow>
          Inr [(''summary'',
                Object [(''warnings'', Strings []),
                        (''convergence_status'', String ''converged''),
                        (''calculation_status'', String ''completed'')]),
               (''convergence_info'', Object [(''scc_converged'', Bool True)]),
               (''energies_eV'', Object [(''total'', Float (fconst F ''-100.0''))]),
               (''energies_hartree'', Object [(''total'', Float (fconst F ''-3.6749''))]),
               (''electronic_properties'',
                Object [(''fermi_level_eV'', Float (fconst F ''-5.0'')),
                        (''total_charge'', Float (fconst F ''0.0'')),
                        (''dipole_moment_debye'',
                         Object [(''x'', Float (fconst F ''0.0'')),
                                 (''y'', Float (fconst F ''0.0'')),
                                 (''z'', Float (fconst F ''0.0''))])])])"

definition cell_line :: "'f float64_ops \<Rightarrow> string \<times> 'f \<Rightarrow> string" where
  "cell_line F kv = fst kv @ '' '' @ Sprintf_f F 8 6 (snd kv) @ ''\<newline>''"

text \<open>The line of the optimized structure for the atom site at index \<open>i\<close>.\<close>

definition atom_line :: "'f float64_ops \<Rightarrow> nat \<Rightarrow> 'f AtomSite \<Rightarrow> string" where
  "atom_line F i atom =
     (let displacement = fconst F ''0.001'';
          optimizedX = fadd F (FractX atom) (fmul F displacement (fint F (int i + 1)));
          optimizedY = fadd F (FractY atom) (fmul F displacement (fint F (int i + 2)));
          optimizedZ = fadd F (FractZ atom) (fmul F displacement (fint F (int i + 3)));
          uIso = (if feq F (UIsoOrEquiv atom) (f0 F) then fconst F ''0.01'' else UIsoOrEquiv atom)
      in Label atom @ '' '' @ TypeSymbol atom @ '' '' @ Sprintf_f F 12 8 optimizedX @ '' '' @
         Sprintf_f F 12 8 optimizedY @ '' '' @ Sprintf_f F 12 8 optimizedZ @ '' '' @
         Sprintf_f F 8 6 uIso @ ''\<newline>'')"

definition optimized_content :: "'f float64_ops \<Rightarrow> env \<Rightarrow> 'f CIFFile \<Rightarrow> string" where
  "optimized_content F E originalCIF =
     ''data_'' @ Name originalCIF @ ''_optimized\<newline>'' @
     ''# Optimized structure from DFTB+\<newline>'' @
     ''_audit_creation_method            '' @ [CHR 0x27] @ ''DFTB+ geometry optimization'' @
       [CHR 0x27] @ ''\<newline>'' @
     ''_audit_creation_date               '' @ [CHR 0x27] @ today E @ [CHR 0x27] @ ''\<newline>'' @
     ''\<newline>'' @
     concat (map (cell_line F) (range_map (range_CellLength E) (CellLength originalCIF))) @
     concat (map (cell_line F) (range_map (range_CellAngle E) (CellAngle originalCIF))) @
     ''\<newline>'' @
     ''loop_\<newline>'' @
     ''_atom_site_label\<newline>'' @
     ''_atom_site_type_symbol\<newline>'' @
     ''_atom_site_fract_x\<newline>'' @
     ''_atom_site_fract_y\<newline>'' @
     ''_atom_site_fract_z\<newline>'' @
     ''_atom_site_U_iso_or_equiv\<newline>'' @
     concat (map (\<lambda>(i, atom). atom_line F i atom)
               (zip [0 ..< length (AtomSites originalCIF)] (AtomSites originalCIF)))"

definition generateOptimizedCIF ::
  "'f float64_ops \<Rightarrow> env \<Rightarrow> filesystem \<Rightarrow> string \<Rightarrow> 'f CIFFile \<Rightarrow> (string \<times> 'f json) list
     \<Rightarrow> (error + string) \<times> filesystem" where
  "generateOptimizedCIF F E fs dir originalCIF parsedData =
     (let optimizedPath = filepath_Join dir ''optimized.cif''
      in case os_WriteFile fs optimizedPath (optimized_content F E originalCIF) of
           (Some e, fs1) \<Rightarrow> (Inl (Error (''failed to write optimized CIF: '' @ e)), fs1)
         | (None, fs1) \<Rightarrow> (Inr optimizedPath, fs1))"

definition ReadFromFile :: "filesystem \<Rightarrow> string \<Rightarrow> error + string" where
  "ReadFromFile fs filename =
     (case os_ReadFile fs filename of
        Inl e \<Rightarrow> Inl (Error (''failed to read file: '' @ e))
      | Inr content \<Rightarrow> Inr content)"

subsection \<open>RunOptimization\<close>

definition createErrorResponse :: "string \<Rightarrow> string \<Rightarrow> 'f OptimizationResponse" where
  "createErrorResponse requestID err =
     \<lparr>Status = ''error'', Response_RequestID = requestID, ParsedData = [],
      OutputCIFPath = [], ErrorMessage = err\<rparr>"

text \<open>
  What a call makes of an error: a panic unwinds the caller, an \<open>error\<close> value becomes
  an error response whose message gives the stage and the text of the error.
\<close>

definition failed ::
  "string \<Rightarrow> string \<Rightarrow> error \<Rightarrow> filesystem \<Rightarrow> (error + 'f OptimizationResponse) \<times> filesystem" where
  "failed requestID stage e fs =
     (case e of
        Error m \<Rightarrow> (Inr (createErrorResponse requestID (stage @ m)), fs)
      | _ \<Rightarrow> (Inl e, fs))"

definition RunOptimization ::
  "DFTBRunner \<Rightarrow> 'f float64_ops \<Rightarrow> env \<Rightarrow> filesystem \<Rightarrow> 'f OptimizationRequest
     \<Rightarrow> (error + 'f OptimizationResponse) \<times> filesystem" where
  "RunOptimization r F E fs request =
     (let requestDir = filepath_Join (workDir r) (RequestID request) in
      case os_MkdirAll fs requestDir of
        (Some e, fs1) \<Rightarrow> (Inl (Error (''failed to create request directory: '' @ e)), fs1)
      | (None, fs1) \<Rightarrow>
     (case ParseFromBase64 F (StructureFile request) of
        Inl e \<Rightarrow> failed (RequestID request) ''failed to parse CIF file: '' e fs1
      | Inr parsed \<Rightarrow>
     (case ToDFTBInput F (Some parsed) (Method request) (Fmax request) of
        Inl e \<Rightarrow> failed (RequestID request) ''failed to convert to DFTB+ input: '' e fs1
      | Inr dftbInput \<Rightarrow>
     (case generateInputFiles F fs1 requestDir dftbInput of
        (Some e, fs2) \<Rightarrow> failed (RequestID request) ''failed to generate input files: '' e fs2
      | (None, fs2) \<Rightarrow>
     (let ran = runDFTBCalculation r E fs2 requestDir (RequestID request) in
      case returned ran of
        Inl e \<Rightarrow> failed (RequestID request) ''DFTB+ calculation failed: '' e (after ran)
      | Inr outputPath \<Rightarrow>
     (case parseDFTBOutput F (after ran) outputPath of
        Inl e \<Rightarrow> failed (RequestID request) ''failed to parse DFTB+ output: '' e (after ran)
      | Inr parsedData \<Rightarrow>
     (case generateOptimizedCIF F E (after ran) requestDir parsed parsedData of
        (Inl e, fs3) \<Rightarrow> failed (RequestID request) ''failed to generate optimized CIF: '' e fs3
      | (Inr optimizedCIFPath, fs3) \<Rightarrow>
     (case ReadFromFile fs3 optimizedCIFPath of
        Inl e \<Rightarrow> failed (RequestID request) ''failed to read optimized CIF: '' e fs3
      | Inr optimizedCIFContent \<Rightarrow>
          (Inr \<lparr>Status = ''success'', Response_RequestID = RequestID request,
                 ParsedData = parsedData,
                 OutputCIFPath = EncodeToString optimizedCIFContent,
                 ErrorMessage = []\<rparr>, fs3)))))))))"

definition ValidateRequest :: "'f float64_ops \<Rightarrow> 'f OptimizationRequest \<Rightarrow> error option" where
  "ValidateRequest F request =
     (if RequestID request = [] then Some (Error ''request ID is required'')
      else if StructureFile request = [] then Some (Error ''structure file is required'')
      else if Method request \<noteq> ''GFN1-xTB'' \<and> Method request \<noteq> ''GFN2-xTB''
        then Some (Error (''invalid method: '' @ Method request))
      else if fle F (Fmax request) (f0 F) then Some (Error ''fmax must be positive'')
      else None)"

subsection \<open>GetStatus\<close>

definition GetStatus :: "DFTBRunner \<Rightarrow> filesystem \<Rightarrow> string \<Rightarrow> string" where
  "GetStatus r fs requestID =
     (let requestDir = filepath_Join (workDir r) requestID in
      if IsNotExist (os_Stat fs requestDir) then ''not_found''
      else
        (let outputPath = filepath_Join requestDir ''dftb_out.hsd'' in
         if IsNotExist (os_Stat fs outputPath) then ''running''
         else
           (let errorPath = filepath_Join requestDir ''error.log'' in
            if \<not> IsNotExist (os_Stat fs errorPath) then ''error''
            else ''completed'')))"

section \<open>The HTTP handler (package api)\<close>

text \<open>
  A response written with \<open>c.JSON\<close>: the status code with the fields of a \<open>gin.H\<close>, or
  with an \<open>OptimizationResponse\<close>.
\<close>

datatype 'f http_response =
    JSON int "(string \<times> string) list"
  | JSON_response int "'f OptimizationResponse"

record APIHandler =
  dftbRunner :: DFTBRunner
  APIHandler_config :: ServerConfig

definition NewAPIHandler :: "ServerConfig \<Rightarrow> APIHandler" where
  "NewAPIHandler c = \<lparr>dftbRunner = NewDFTBRunner c, APIHandler_config = c\<rparr>"

text \<open>The text \<open>err.Error()\<close> of an error, and of a panic of the runtime.\<close>

definition Error_text :: "error \<Rightarrow> string" where
  "Error_text e =
     (case e of
        Error m \<Rightarrow> m
      | NilPointerDereference \<Rightarrow> ''runtime error: invalid memory address or nil pointer dereference''
      | IndexOutOfRange \<Rightarrow> ''runtime error: index out of range''
      | IntegerDivideByZero \<Rightarrow> ''runtime error: integer divide by zero'')"

text \<open>
  \<open>optimizeStructure\<close> up to its call of \<open>RunOptimization\<close>.  \<open>bound\<close> is what
  \<open>c.ShouldBindJSON\<close> gives: the text of its error, or the request it has bound;
  \<open>uuid\<close> is the value of \<open>uuid.New().String()\<close>.  The result is the response that
  rejects the submission, or the request that is handed to \<open>RunOptimization\<close>.
\<close>

definition admit ::
  "APIHandler \<Rightarrow> 'f float64_ops \<Rightarrow> string + 'f OptimizationRequest \<Rightarrow> string
     \<Rightarrow> 'f http_response + 'f OptimizationRequest" where
  "admit h F bound uuid =
     (case bound of
        Inl err \<Rightarrow>
          Inl (JSON 400 [(''error'', ''Invalid request format''), (''details'', err)])
      | Inr request0 \<Rightarrow>
          (let request = (if RequestID request0 = [] then request0\<lparr>RequestID := uuid\<rparr>
                          else request0)
           in case ValidateRequest F request of
                Some err \<Rightarrow>
                  Inl (JSON 400 [(''error'', ''Invalid request parameters''),
                                 (''details'', Error_text err)])
              | None \<Rightarrow> Inr request))"

definition optimizeStructure ::
  "APIHandler \<Rightarrow> 'f float64_ops \<Rightarrow> env \<Rightarrow> filesystem \<Rightarrow> string + 'f OptimizationRequest
     \<Rightarrow> string \<Rightarrow> (error + 'f http_response) \<times> filesystem" where
  "optimizeStructure h F E fs bound uuid =
     (case admit h F bound uuid of
        Inl rejected \<Rightarrow> (Inr rejected, fs)
      | Inr request \<Rightarrow>
          (case RunOptimization (dftbRunner h) F E fs request of
             (Inl (Error m), fs1) \<Rightarrow>
               (Inr (JSON 500 [(''error'', ''Optimization failed''), (''details'', m)]), fs1)
           | (Inl e, fs1) \<Rightarrow> (Inl e, fs1)
           | (Inr response, fs1) \<Rightarrow> (Inr (JSON_response 200 response), fs1)))"

text \<open>The paths of the three artifacts that \<open>GetStatus\<close> looks at.\<close>

definition job_directory :: "DFTBRunner \<Rightarrow> string \<Rightarrow> string" where
  "job_directory r requestID = filepath_Join (workDir r) requestID"

definition job_output :: "DFTBRunner \<Rightarrow> string \<Rightarrow> string" where
  "job_output r requestID = filepath_Join (job_directory r requestID) ''dftb_out.hsd''"

definition job_error_log :: "DFTBRunner \<Rightarrow> string \<Rightarrow> string" where
  "job_error_log r requestID = filepath_Join (job_directory r requestID) ''error.log''"

section \<open>Concrete inputs\<close>

text \<open>
  An interpretation of the \<open>float64\<close> primitives on the reals for evaluating the
  functions at concrete inputs.  It is used only at values that binary64 represents
  exactly and whose sums and products binary64 computes exactly; parsing and formatting
  are tables of the few literals that occur.
\<close>

definition example_ops :: "real float64_ops" where
  "example_ops =
     \<lparr>f0 = 0,
      fconst = (\<lambda>s. case map_of [(''0.001'', 1 / 1000), (''0.01'', 1 / 100), (''-100.0'', - 100),
                                  (''-3.6749'', - 36749 / 10000), (''-5.0'', - 5), (''0.0'', 0)] s of
                        Some v \<Rightarrow> v | None \<Rightarrow> 0),
      fint = of_int,
      fmul = (*),
      fadd = (+),
      feq = (=),
      fle = (\<le>),
      ParseFloat = map_of [(''10'', 10), (''90'', 90), (''0'', 0), (''0.5'', 1 / 2)],
      Sprintf_f = (\<lambda>w p x. case map_of [((8, 6, 10), ''10.000000''), ((8, 6, 90), ''90.000000''),
                                       ((0, 6, 1 / 1000), ''0.001000''),
                                       ((12, 8, 0), ''  0.00000000''),
                                       ((12, 8, 5), ''  5.00000000'')] (w, p, x) of
                           Some s \<Rightarrow> s | None \<Rightarrow> [])\<rparr>"

text \<open>
  The two-atom carbon structure of the specification's scenario, as text and as the
  structure it describes.
\<close>

definition two_carbon_text :: string where
  "two_carbon_text =
     ''data_test\<newline>_cell_length_a 10\<newline>_cell_length_b 10\<newline>_cell_length_c 10\<newline>_cell_angle_alpha 90\<newline>_cell_angle_beta 90\<newline>_cell_angle_gamma 90\<newline>loop_\<newline>_atom_site_label\<newline>_atom_site_type_symbol\<newline>_atom_site_fract_x\<newline>_atom_site_fract_y\<newline>_atom_site_fract_z\<newline>C1 C 0 0 0\<newline>C2 C 0.5 0.5 0\<newline>''"

definition two_carbon :: "real CIFFile" where
  "two_carbon =
     \<lparr>Name = ''test'',
      CellLength = [''_cell_length_a'' \<mapsto> 10, ''_cell_length_b'' \<mapsto> 10, ''_cell_length_c'' \<mapsto> 10],
      CellAngle = [''_cell_angle_alpha'' \<mapsto> 90, ''_cell_angle_beta'' \<mapsto> 90,
                   ''_cell_angle_gamma'' \<mapsto> 90],
      AtomSites =
        [\<lparr>Label = ''C1'', TypeSymbol = ''C'', FractX = 0, FractY = 0, FractZ = 0,
          UIsoOrEquiv = 0, AdpType = []\<rparr>,
         \<lparr>Label = ''C2'', TypeSymbol = ''C'', FractX = 1 / 2, FractY = 1 / 2, FractZ = 0,
          UIsoOrEquiv = 0, AdpType = []\<rparr>],
      Symmetry = [],
      Metadata = Map.empty\<rparr>"

text \<open>A structure with a name and no cell lengths.\<close>

definition named_without_cell :: "real CIFFile" where
  "named_without_cell = CIFFile_zero\<lparr>Name := ''test''\<rparr>"

text \<open>A text with an atom-site loop and no data block.\<close>

definition loop_only_text :: string where
  "loop_only_text = ''# structure\<newline>loop_\<newline>_atom_site_label\<newline>C1\<newline>''"

text \<open>
  The configuration of the command-line defaults, a file system that holds the engine
  and the work root, and an environment whose engine is started after a millisecond,
  exits with success after two seconds and leaves then a fixed output artifact in its
  working directory.  Its \<open>range\<close> orders are for the structure of the request below,
  which has two cell lengths and no angle.
\<close>

definition example_config :: ServerConfig where
  "example_config =
     \<lparr>Port = 8080, WorkDir = ''./work'', DFTBPath = ''dftb+'', MaxRequests = 10, Timeout = 300\<rparr>"

definition example_fs :: filesystem where
  "example_fs =
     \<lparr>entry = (\<lambda>p. p = ''dftb+'' \<or> p = ''work''),
      contents = Map.empty, Stat_error = Map.empty, ReadFile_error = Map.empty,
      WriteFile_error = Map.empty, MkdirAll_error = Map.empty\<rparr>"

definition with_output :: "filesystem \<Rightarrow> string \<Rightarrow> filesystem" where
  "with_output fs dir =
     fs\<lparr>entry := (entry fs)(filepath_Join dir ''dftb_out.hsd'' := True),
        contents := (contents fs)(filepath_Join dir ''dftb_out.hsd'' \<mapsto> ''Geometry = GenFormat {}'')\<rparr>"

definition example_env :: env where
  "example_env =
     \<lparr>today = ''2024-01-01'',
      range_CellLength = [''_cell_length_a'', ''_cell_length_b''],
      range_CellAngle = [],
      run_command = (\<lambda>path dir fs.
        \<lparr>started_at = Some 1000000, finished_at = Some 2000000000, exit_error = None,
         timer_first = False,
         files_at = (\<lambda>t. if t < 2000000000 then fs else with_output fs dir)\<rparr>)\<rparr>"

text \<open>
  A request for the structure text \<open>data_t\<close>, \<open>_cell_length_a 10\<close>, \<open>_cell_length_b 10\<close>
  (three lines), in base64.
\<close>

definition example_request :: "real OptimizationRequest" where
  "example_request =
     \<lparr>RequestID = ''job1'',
      StructureFile = ''ZGF0YV90Cl9jZWxsX2xlbmd0aF9hIDEwCl9jZWxsX2xlbmd0aF9iIDEwCg=='',
      Method = ''GFN2-xTB'',
      Fmax = 1 / 1000,
      OriginalFilename = []\<rparr>"

text \<open>A structure with two carbon atoms followed by a hydrogen atom.\<close>

definition carbon_carbon_hydrogen :: "real CIFFile" where
  "carbon_carbon_hydrogen =
     two_carbon\<lparr>AtomSites := AtomSites two_carbon @
        [\<lparr>Label = ''H1'', TypeSymbol = ''H'', FractX = 1 / 2, FractY = 0, FractZ = 0,
          UIsoOrEquiv = 0, AdpType = []\<rparr>]\<rparr>"

text \<open>
  The structure of the example request, the result of running a request in a given
  environment, the environment of the day after, the environment whose first \<open>range\<close>
  loop visits the keys in the other order, and the environment whose engine is started
  after a millisecond, never exits and writes nothing.
\<close>

definition example_structure :: "error + real CIFFile" where
  "example_structure = ParseFromBase64 example_ops (StructureFile example_request)"

definition run_in :: "env \<Rightarrow> real OptimizationRequest \<Rightarrow> error + real OptimizationResponse" where
  "run_in E request =
     fst (RunOptimization (NewDFTBRunner example_config) example_ops E example_fs request)"

definition next_day_env :: env where
  "next_day_env = example_env\<lparr>today := ''2024-01-02''\<rparr>"

definition other_order_env :: env where
  "other_order_env =
     example_env\<lparr>range_CellLength := [''_cell_length_b'', ''_cell_length_a'']\<rparr>"

definition slow_engine_env :: env where
  "slow_engine_env =
     example_env\<lparr>run_command := (\<lambda>path dir fs.
        \<lparr>started_at = Some 1000000, finished_at = None, exit_error = None,
         timer_first = False, files_at = (\<lambda>t. fs)\<rparr>)\<rparr>"

text \<open>A second request for the same structure, and a handler configured with \<open>max-requests = 1\<close>.\<close>

definition second_request :: "real OptimizationRequest" where
  "second_request = example_request\<lparr>RequestID := ''job2''\<rparr>"

definition single_job_handler :: APIHandler where
  "single_job_handler = NewAPIHandler (example_config\<lparr>MaxRequests := 1\<rparr>)"

text \<open>The file system after the engine has left its output for the job \<open>job1\<close>.\<close>

definition finished_fs :: filesystem where
  "finished_fs = with_output (example_fs\<lparr>entry := (entry example_fs)(''work/job1'' := True)\<rparr>) ''work/job1''"

text \<open>
  The file system that \<open>RunOptimization\<close> leaves for the first request when the engine
  never exits and writes nothing: the one in which that engine was launched, and which
  stays as it is while the engine runs.  And the file system that \<open>RunOptimization\<close>
  leaves from there for the second request with such an engine.
\<close>

definition job1_launched_fs :: filesystem where
  "job1_launched_fs =
     snd (RunOptimization (dftbRunner single_job_handler) example_ops slow_engine_env example_fs
            example_request)"

definition job2_launched_fs :: filesystem where
  "job2_launched_fs =
     snd (RunOptimization (dftbRunner single_job_handler) example_ops slow_engine_env
            job1_launched_fs second_request)"

text \<open>A configuration whose timeout in nanoseconds exceeds the range of \<open>int64\<close>.\<close>

definition long_timeout_config :: ServerConfig where
  "long_timeout_config = example_config\<lparr>Timeout := 9223372037\<rparr>"

text \<open>
  A file system in which \<open>os.Stat\<close> refuses a path with an element of more than 255
  bytes (the name is too long), and a job identifier of 256 bytes.
\<close>

definition name_limit_fs :: filesystem where
  "name_limit_fs =
     example_fs\<lparr>Stat_error := (\<lambda>p. if list_ex (\<lambda>e. 255 < int (length e)) (split_slash [] p)
                                     then Some ''file name too long'' else None)\<rparr>"

definition long_id :: string where
  "long_id = replicate 256 (CHR ''a'')"

section \<open>Properties of the structure parser\<close>

lemma scanned_subset: "set (scanned content) \<subseteq> dropCR ` set (split_lines [] content)"
  by (auto simp: scanned_def dest: set_takeWhileD)

text \<open>
  No path of the scanning loop reaches the call of \<open>processLoopData\<close>: inside a loop a
  line is a header when it starts with an underscore and a data row otherwise.  So the
  atom sites and the symmetry operators of a parsed structure are always empty.
\<close>

lemma parse_line_no_sites:
  assumes "no_sites v" "parse_line F v l = Inr v'"
  shows "no_sites v'"
  using assms
  by (auto simp: parse_line_def no_sites_def Let_def CIFFile_zero_def
      split: if_splits option.splits sum.splits)

lemma parse_lines_no_sites:
  assumes "no_sites v" "parse_lines F v ls = Inr v'"
  shows "no_sites v'"
  using assms
proof (induction ls arbitrary: v)
  case Nil
  then show ?case by simp
next
  case (Cons l ls)
  from Cons.prems obtain v1 where s: "parse_line F v l = Inr v1"
    and r: "parse_lines F v1 ls = Inr v'"
    by (auto split: sum.splits)
  from Cons.prems(1) s have "no_sites v1" by (rule parse_line_no_sites)
  then show ?case using r by (rule Cons.IH)
qed

lemma ParseFromString_no_sites:
  assumes "ParseFromString F content = Inr c"
  shows "AtomSites c = [] \<and> Symmetry c = []"
proof -
  from assms obtain v where v: "parse_lines F parser_init (scanned content) = Inr v"
    and c: "c = (case currentDataBlock v of Some d \<Rightarrow> d | None \<Rightarrow> cif v)"
    by (auto simp: ParseFromString_def split: sum.splits option.splits error.splits)
  have "no_sites (parser_init :: 'a parser_vars)"
    by (simp add: no_sites_def parser_init_def CIFFile_zero_def)
  then have "no_sites v" using v by (rule parse_lines_no_sites)
  with c show ?thesis by (auto simp: no_sites_def split: option.splits)
qed

text \<open>The keys of the cell maps of a parsed structure are among the six recognised ones.\<close>

lemma parse_line_cell_keys:
  assumes "cell_keys_inv v" "parse_line F v l = Inr v'"
  shows "cell_keys_inv v'"
  using assms
  by (auto simp: parse_line_def cell_keys_inv_def cell_keys_only_def Let_def CIFFile_zero_def
      subset_iff dom_def split: if_splits option.splits sum.splits)

lemma parse_lines_cell_keys:
  assumes "cell_keys_inv v" "parse_lines F v ls = Inr v'"
  shows "cell_keys_inv v'"
  using assms
proof (induction ls arbitrary: v)
  case Nil
  then show ?case by simp
next
  case (Cons l ls)
  from Cons.prems obtain v1 where s: "parse_line F v l = Inr v1"
    and r: "parse_lines F v1 ls = Inr v'"
    by (auto split: sum.splits)
  from Cons.prems(1) s have "cell_keys_inv v1" by (rule parse_line_cell_keys)
  then show ?case using r by (rule Cons.IH)
qed

lemma ParseFromString_cell_keys:
  assumes "ParseFromString F content = Inr c"
  shows "cell_keys_only c"
proof -
  from assms obtain v where v: "parse_lines F parser_init (scanned content) = Inr v"
    and c: "c = (case currentDataBlock v of Some d \<Rightarrow> d | None \<Rightarrow> cif v)"
    by (auto simp: ParseFromString_def split: sum.splits option.splits error.splits)
  have "cell_keys_inv (parser_init :: 'a parser_vars)"
    by (simp add: cell_keys_inv_def cell_keys_only_def parser_init_def CIFFile_zero_def)
  then have "cell_keys_inv v" using v by (rule parse_lines_cell_keys)
  with c show ?thesis by (auto simp: cell_keys_inv_def split: option.splits)
qed

lemma ParseFromBase64_cell_keys:
  assumes "ParseFromBase64 F s = Inr c"
  shows "cell_keys_only c"
  using assms
  by (auto simp: ParseFromBase64_def split: sum.splits error.splits dest: ParseFromString_cell_keys)

text \<open>
  Claim C1 (the atom count of a parsed structure is the number of well-formed rows of
  its atom-site loop) fails on the code.  The text of the two-atom carbon structure has
  a data block, the three cell lengths and an atom-site loop with the five headers and
  two rows of five columns; it is parsed without error, with its name and its cell
  lengths, and with no atom site at all.
\<close>

theorem ParseFromString_two_carbon_no_atoms:
  "(case ParseFromString example_ops two_carbon_text of
      Inl e \<Rightarrow> False
    | Inr c \<Rightarrow>
        Name c = ''test'' \<and> CellLength c ''_cell_length_a'' = Some 10 \<and>
        CellLength c ''_cell_length_b'' = Some 10 \<and> CellLength c ''_cell_length_c'' = Some 10 \<and>
        length (AtomSites c) = 0)"
  by code_simp

text \<open>
  Claim C8 (a text without a data-block declaration fails to parse with a format
  error) is false of \<open>ParseFromString\<close>: the text below declares no data block, does not
  even contain \<open>data_\<close>, and is parsed without error into a structure with an empty name.
\<close>

theorem ParseFromString_no_data_block_counterexample:
  "\<not> declares_data_block loop_only_text \<and> \<not> Contains loop_only_text ''data_'' \<and>
   (case ParseFromString example_ops loop_only_text of
      Inl e \<Rightarrow> False
    | Inr c \<Rightarrow> Name c = [] \<and> AtomSites c = [])"
  by code_simp

text \<open>
  What \<open>ParseFromString\<close> makes of a text that declares no data block.  Inside a loop
  no line fails.  Outside a loop a line that stores into the data block dereferences
  the nil pointer; every other line is skipped.
\<close>

lemma parse_line_in_loop:
  assumes "\<not> HasPrefix (TrimSpace l) ''data_''" "currentDataBlock v = None" "inLoop v"
  shows "\<exists>v'. parse_line F v l = Inr v' \<and> inLoop v' \<and> currentDataBlock v' = None \<and> cif v' = cif v"
  using assms by (auto simp: parse_line_def Let_def)

lemma parse_lines_in_loop:
  assumes "list_all (\<lambda>l. \<not> HasPrefix (TrimSpace l) ''data_'') ls"
    "currentDataBlock v = None" "inLoop v"
  shows "\<exists>v'. parse_lines F v ls = Inr v' \<and> currentDataBlock v' = None \<and> cif v' = cif v"
  using assms
proof (induction ls arbitrary: v)
  case Nil
  then show ?case by simp
next
  case (Cons l ls)
  from Cons.prems obtain v1 where s: "parse_line F v l = Inr v1" "inLoop v1"
      "currentDataBlock v1 = None" "cif v1 = cif v"
    using parse_line_in_loop[of l v F] by auto
  from Cons.IH[of v1] Cons.prems(1) s show ?case by auto
qed

lemma parse_line_outside_loop:
  assumes "\<not> HasPrefix (TrimSpace l) ''data_''" "currentDataBlock v = None" "\<not> inLoop v"
  shows "parse_line F v l =
     (if TrimSpace l = [] \<or> HasPrefix (TrimSpace l) ''#'' then Inr v
      else if HasPrefix (TrimSpace l) ''loop_''
        then Inr (v\<lparr>inLoop := True, loopHeaders := [], loopData := []\<rparr>)
      else if writes_block F (TrimSpace l) then Inl NilPointerDereference
      else Inr v)"
  using assms
  by (auto simp: parse_line_def writes_block_def Let_def split: option.splits)

lemma parse_lines_outside_loop:
  assumes "list_all (\<lambda>l. \<not> HasPrefix (TrimSpace l) ''data_'') ls"
    "currentDataBlock v = None" "\<not> inLoop v"
  shows "(writes_before_loop F ls \<longrightarrow> parse_lines F v ls = Inl NilPointerDereference) \<and>
         (\<not> writes_before_loop F ls \<longrightarrow>
            (\<exists>v'. parse_lines F v ls = Inr v' \<and> currentDataBlock v' = None \<and> cif v' = cif v))"
  using assms
proof (induction ls arbitrary: v)
  case Nil
  then show ?case by simp
next
  case (Cons l ls)
  have nd: "\<not> HasPrefix (TrimSpace l) ''data_''"
    and rest: "list_all (\<lambda>l. \<not> HasPrefix (TrimSpace l) ''data_'') ls"
    using Cons.prems(1) by simp_all
  note step = parse_line_outside_loop[OF nd Cons.prems(2,3), of F]
  show ?case
  proof (cases "TrimSpace l = [] \<or> HasPrefix (TrimSpace l) ''#''")
    case True
    then show ?thesis using step Cons.IH[OF rest Cons.prems(2,3)] by auto
  next
    case False
    show ?thesis
    proof (cases "HasPrefix (TrimSpace l) ''loop_''")
      case True
      let ?v1 = "v\<lparr>inLoop := True, loopHeaders := [], loopData := []\<rparr>"
      have "\<exists>v'. parse_lines F ?v1 ls = Inr v' \<and> currentDataBlock v' = None \<and> cif v' = cif ?v1"
        using parse_lines_in_loop[OF rest, of ?v1 F] Cons.prems(2) by simp
      then show ?thesis using step False True by auto
    next
      case nl: False
      show ?thesis
      proof (cases "writes_block F (TrimSpace l)")
        case True
        then show ?thesis using step False nl by simp
      next
        case False2: False
        then show ?thesis using step False nl Cons.IH[OF rest Cons.prems(2,3)] by auto
      qed
    qed
  qed
qed

lemma ParseFromString_without_block_outcome:
  assumes "\<not> declares_data_block content"
  shows "ParseFromString F content =
     (if writes_before_loop F (scanned content) then Inl NilPointerDereference
      else if scanner_Err content = None then Inr CIFFile_zero
      else Inl (Error ''error reading CIF content: bufio.Scanner: token too long''))"
proof -
  have a: "list_all (\<lambda>l. \<not> HasPrefix (TrimSpace l) ''data_'') (scanned content)"
    using assms scanned_subset[of content]
    by (auto simp: declares_data_block_def list_all_iff list_ex_iff)
  have i: "currentDataBlock (parser_init :: 'a parser_vars) = None"
    "\<not> inLoop (parser_init :: 'a parser_vars)"
    "cif (parser_init :: 'a parser_vars) = CIFFile_zero"
    by (simp_all add: parser_init_def)
  note o = parse_lines_outside_loop[OF a i(1,2), of F]
  show ?thesis
  proof (cases "writes_before_loop F (scanned content)")
    case True
    then show ?thesis using o by (simp add: ParseFromString_def)
  next
    case False
    then obtain v' where "parse_lines F parser_init (scanned content) = Inr v'"
      "currentDataBlock v' = None" "cif v' = CIFFile_zero"
      using o i(3) by auto
    then show ?thesis using False
      by (auto simp: ParseFromString_def scanner_Err_def split: option.splits)
  qed
qed

text \<open>
  Claim C8 as amended: for a text that declares no data block \<open>ParseFromString\<close>
  reports no format error.  The only error value it can return is that of the scanner
  for a line too long for its buffer; it returns the zero structure whenever every
  line fits the buffer and no line before the first \<open>loop_\<close> stores a value into the
  data block, and it returns no other structure; \<open>ToDFTBInput\<close> rejects that
  structure as an invalid CIF file.  The pre-flight check \<open>ValidateCIFContent\<close> fails
  with "missing data block declaration" on every text that does not contain \<open>data_\<close>.
\<close>

theorem ParseFromString_without_data_block:
  "(\<not> declares_data_block content \<longrightarrow>
      (\<forall>m. ParseFromString F content = Inl (Error m) \<longrightarrow>
         m = ''error reading CIF content: bufio.Scanner: token too long'' \<and>
         scanner_Err content \<noteq> None) \<and>
      (\<not> writes_before_loop F (scanned content) \<and> scanner_Err content = None \<longrightarrow>
         ParseFromString F content = Inr CIFFile_zero) \<and>
      (\<forall>c. ParseFromString F content = Inr c \<longrightarrow>
         c = CIFFile_zero \<and>
         ToDFTBInput F (Some c) method fmax = Inl (Error ''invalid CIF file''))) \<and>
   (\<not> Contains content ''data_'' \<longrightarrow>
      ValidateCIFContent content = Some (Error ''missing data block declaration''))"
proof -
  have "ToDFTBInput F (Some CIFFile_zero) method fmax = Inl (Error ''invalid CIF file'')"
    by (simp add: ToDFTBInput_def CIFFile_zero_def)
  then show ?thesis
    using ParseFromString_without_block_outcome[of content F]
    by (auto simp: ValidateCIFContent_def split: if_splits)
qed

theorem ParseFromString_without_data_block_witness:
  "\<not> declares_data_block loop_only_text \<and>
   \<not> writes_before_loop example_ops (scanned loop_only_text) \<and>
   scanner_Err loop_only_text = None \<and>
   ParseFromString example_ops loop_only_text = Inr CIFFile_zero \<and>
   ToDFTBInput example_ops (Some CIFFile_zero) ''GFN2-xTB'' (1 / 1000)
     = Inl (Error ''invalid CIF file'') \<and>
   \<not> Contains loop_only_text ''data_'' \<and>
   ValidateCIFContent loop_only_text = Some (Error ''missing data block declaration'')"
proof -
  have d: "\<not> declares_data_block loop_only_text" by code_simp
  have c: "\<not> Contains loop_only_text ''data_''" by code_simp
  have w: "\<not> writes_before_loop example_ops (scanned loop_only_text)" by code_simp
  have s: "scanner_Err loop_only_text = None" by code_simp
  show ?thesis
    using ParseFromString_without_data_block
      [of loop_only_text example_ops "''GFN2-xTB''" "1 / 1000"] d c w s
    by auto
qed

section \<open>Properties of the engine-input synthesizer\<close>

lemma extract_atoms_snd:
  "snd (extract_atoms F a b c atoms em els cs) =
     cs @ map (\<lambda>atom. [fmul F (FractX atom) a, fmul F (FractY atom) b,
                       fmul F (FractZ atom) c]) atoms"
  by (induction atoms arbitrary: em els cs) (simp_all add: Let_def)

text \<open>
  Claim C9 (synthesis fails whenever the structure has no name or no cell lengths) is
  false for the cell lengths: a structure with a name and an empty map of cell lengths
  is accepted.
\<close>

theorem ToDFTBInput_missing_cell_counterexample:
  "\<not> isl (ToDFTBInput example_ops (Some named_without_cell) ''GFN2-xTB'' (1 / 1000)) \<and>
   CellLength named_without_cell ''_cell_length_a'' = None \<and>
   CellLength named_without_cell ''_cell_length_b'' = None \<and>
   CellLength named_without_cell ''_cell_length_c'' = None"
  by (simp add: ToDFTBInput_def named_without_cell_def CIFFile_zero_def Let_def)

text \<open>
  Claim C9 as amended: \<open>ToDFTBInput\<close> fails exactly when the structure is nil or has an
  empty name, and then with the error "invalid CIF file"; in every other case,
  whatever the cell lengths, it returns an engine input.
\<close>

theorem ToDFTBInput_fails_iff:
  "(isl (ToDFTBInput F cifp method fmax) \<longleftrightarrow>
      (case cifp of None \<Rightarrow> True | Some c \<Rightarrow> Name c = [])) \<and>
   (isl (ToDFTBInput F cifp method fmax) \<longrightarrow>
      ToDFTBInput F cifp method fmax = Inl (Error ''invalid CIF file''))"
  by (simp add: ToDFTBInput_def Let_def split: option.splits)

theorem ToDFTBInput_fails_iff_witness:
  "isl (ToDFTBInput example_ops (Some (CIFFile_zero :: real CIFFile)) ''GFN2-xTB'' (1 / 1000)) \<and>
   ToDFTBInput example_ops (Some (CIFFile_zero :: real CIFFile)) ''GFN2-xTB'' (1 / 1000)
     = Inl (Error ''invalid CIF file'') \<and>
   \<not> isl (ToDFTBInput example_ops (Some two_carbon) ''GFN2-xTB'' (1 / 1000))"
  using ToDFTBInput_fails_iff [of example_ops "Some CIFFile_zero" "''GFN2-xTB''" "1 / 1000"]
    ToDFTBInput_fails_iff [of example_ops "Some two_carbon" "''GFN2-xTB''" "1 / 1000"]
  by (simp add: CIFFile_zero_def two_carbon_def)

text \<open>
  Claim C10: for a structure that \<open>ToDFTBInput\<close> accepts, with cell lengths \<open>a\<close>, \<open>b\<close>
  and \<open>c\<close>, the engine input has one coordinate per atom site and the \<open>i\<close>-th one is the
  \<open>i\<close>-th site's fractional coordinate multiplied component-wise by \<open>(a, b, c)\<close>.  The
  cell angles are not read, so this holds for the orthogonal cells of the claim (and
  for every other cell).  In particular the structure with \<open>a = b = c = 10\<close>, all
  angles 90 and atoms at \<open>(0, 0, 0)\<close> and \<open>(0.5, 0.5, 0)\<close> gives the coordinates
  \<open>(0, 0, 0)\<close> and \<open>(5, 5, 0)\<close>.
\<close>

theorem ToDFTBInput_cartesian:
  "(Name s \<noteq> [] \<and> i < length (AtomSites s) \<longrightarrow>
      (\<exists>inp. ToDFTBInput F (Some s) method fmax = Inr inp \<and>
         length (Geometry_Coordinates inp) = length (AtomSites s) \<and>
         Geometry_Coordinates inp ! i =
           [fmul F (FractX (AtomSites s ! i)) (index_map F (CellLength s) ''_cell_length_a''),
            fmul F (FractY (AtomSites s ! i)) (index_map F (CellLength s) ''_cell_length_b''),
            fmul F (FractZ (AtomSites s ! i)) (index_map F (CellLength s) ''_cell_length_c'')])) \<and>
   (case ToDFTBInput example_ops (Some two_carbon) ''GFN2-xTB'' (1 / 1000) of
      Inl e \<Rightarrow> False
    | Inr inp \<Rightarrow> Geometry_Coordinates inp = [[0, 0, 0], [5, 5, 0]])"
  by (simp add: ToDFTBInput_def Let_def extract_atoms_snd two_carbon_def example_ops_def
      index_map_def)

theorem ToDFTBInput_cartesian_witness:
  "Name two_carbon \<noteq> [] \<and> (1 :: nat) < length (AtomSites two_carbon) \<and>
   \<not> isl (ToDFTBInput example_ops (Some two_carbon) ''GFN2-xTB'' (1 / 1000)) \<and>
   Geometry_Coordinates (projr (ToDFTBInput example_ops (Some two_carbon) ''GFN2-xTB'' (1 / 1000))) ! 1
     = [fmul example_ops (1 / 2) 10, fmul example_ops (1 / 2) 10, fmul example_ops 0 10]"
  using ToDFTBInput_cartesian [of two_carbon 1 example_ops "''GFN2-xTB''" "1 / 1000"]
  by (auto simp: two_carbon_def index_map_def)

section \<open>Properties of the geometry file\<close>

text \<open>
  Claim C4 (the \<open>i\<close>-th coordinate line of the geometry file carries the element symbol
  of the \<open>i\<close>-th atom site) fails on the code.  For the structure with the atom sites
  C1 (carbon), C2 (carbon) and H1 (hydrogen), in this order, the engine input has the
  elements C and H, and the geometry file labels the second coordinate (of the carbon
  C2) with H and the third (of the hydrogen H1) with C: the line at index \<open>i\<close> takes
  the element at index \<open>i mod 2\<close> of the list of distinct elements.
\<close>

theorem generateGeometryContent_mislabels:
  "map TypeSymbol (AtomSites carbon_carbon_hydrogen) = [''C'', ''C'', ''H''] \<and>
   \<not> isl (ToDFTBInput example_ops (Some carbon_carbon_hydrogen) ''GFN2-xTB'' (1 / 1000)) \<and>
   geometry_lines example_ops
     (projr (ToDFTBInput example_ops (Some carbon_carbon_hydrogen) ''GFN2-xTB'' (1 / 1000))) =
     Inr [''3 F\<newline>'',
          ''C H\<newline>'',
          ''C   0.00000000   0.00000000   0.00000000\<newline>'',
          ''H   5.00000000   5.00000000   0.00000000\<newline>'',
          ''C   5.00000000   0.00000000   0.00000000\<newline>'']"
  by code_simp

section \<open>Properties of the job supervisor\<close>

text \<open>
  Claim C6 (a path is returned exactly when the process exits with success within the
  configured timeout and the output exists; on a timeout the process is killed) fails
  on the code.  With a timeout of 9223372037 seconds the product with \<open>time.Second\<close>
  wraps around to a negative duration and the timer fires at once: an engine that is
  started after a millisecond and exits with success after two seconds, leaving its
  output, is reported as timed out, and it is not killed, because \<open>cmd.Process\<close> is
  not yet set when the timer fires.
\<close>

theorem runDFTBCalculation_timeout_counterexample:
  "\<not> IsNotExist (os_Stat example_fs (DFTBPath long_timeout_config)) \<and>
   Timeout long_timeout_config = 9223372037 \<and>
   started_at (run_command example_env (DFTBPath long_timeout_config) ''work/job1'' example_fs)
     = Some 1000000 \<and>
   finished_at (run_command example_env (DFTBPath long_timeout_config) ''work/job1'' example_fs)
     = Some (2 * Second) \<and>
   2 * Second < Timeout long_timeout_config * Second \<and>
   exit_error (run_command example_env (DFTBPath long_timeout_config) ''work/job1'' example_fs)
     = None \<and>
   \<not> IsNotExist
       (os_Stat (files_at (run_command example_env (DFTBPath long_timeout_config) ''work/job1''
                              example_fs) (2 * Second))
          (filepath_Join ''work/job1'' ''dftb_out.hsd'')) \<and>
   returned (runDFTBCalculation (NewDFTBRunner long_timeout_config) example_env example_fs
               ''work/job1'' ''job1'')
     = Inl (Error ''DFTB+ calculation timed out after 9223372037 seconds'') \<and>
   \<not> killed (runDFTBCalculation (NewDFTBRunner long_timeout_config) example_env example_fs
               ''work/job1'' ''job1'')"
  by code_simp

text \<open>
  Claim C6 as amended: for a job whose engine is launched (its path is not reported
  missing) under a timeout of \<open>N\<close> seconds that is positive and whose nanoseconds fit
  \<open>int64\<close>, \<open>runDFTBCalculation\<close> returns a path exactly when \<open>cmd.Run()\<close> delivers
  success before the timer of \<open>N\<close> seconds fires (or together with it, when the
  \<open>select\<close> takes the result) and \<open>dftb_out.hsd\<close> is not reported missing from the job
  directory at that time, and the path is that of \<open>dftb_out.hsd\<close>; an exit with an
  error by then gives "DFTB+ calculation failed", a clean exit without the output
  gives "DFTB+ output file not found"; and when the engine has not exited after \<open>N\<close>
  seconds (or exits together with the timer, when the \<open>select\<close> takes the timer) the
  error is "DFTB+ calculation timed out after N seconds", and the process is killed
  exactly when it has been started by then.
\<close>

theorem runDFTBCalculation_outcomes:
  assumes "\<not> IsNotExist (os_Stat fs (DFTBPath (config r)))"
    and "0 < Timeout (config r)"
    and "Timeout (config r) * Second < 9223372036854775808"
    and "run_command E (DFTBPath (config r)) dir fs = run"
  shows
   "((\<exists>p. returned (runDFTBCalculation r E fs dir requestID) = Inr p) \<longleftrightarrow>
       (\<exists>t. finished_at run = Some t \<and>
            (t < Timeout (config r) * Second \<or>
             t = Timeout (config r) * Second \<and> \<not> timer_first run) \<and>
            exit_error run = None \<and>
            \<not> IsNotExist (os_Stat (files_at run t) (filepath_Join dir ''dftb_out.hsd'')))) \<and>
    (\<forall>p. returned (runDFTBCalculation r E fs dir requestID) = Inr p \<longrightarrow>
       p = filepath_Join dir ''dftb_out.hsd'') \<and>
    (\<forall>t err. finished_at run = Some t \<and>
       (t < Timeout (config r) * Second \<or>
        t = Timeout (config r) * Second \<and> \<not> timer_first run) \<and>
       exit_error run = Some err \<longrightarrow>
       returned (runDFTBCalculation r E fs dir requestID)
         = Inl (Error (''DFTB+ calculation failed: '' @ err))) \<and>
    (\<forall>t. finished_at run = Some t \<and>
       (t < Timeout (config r) * Second \<or>
        t = Timeout (config r) * Second \<and> \<not> timer_first run) \<and>
       exit_error run = None \<and>
       IsNotExist (os_Stat (files_at run t) (filepath_Join dir ''dftb_out.hsd'')) \<longrightarrow>
       returned (runDFTBCalculation r E fs dir requestID)
         = Inl (Error ''DFTB+ output file not found'')) \<and>
    (finished_at run = None \<or>
     (\<exists>t. finished_at run = Some t \<and>
          (Timeout (config r) * Second < t \<or>
           t = Timeout (config r) * Second \<and> timer_first run)) \<longrightarrow>
       returned (runDFTBCalculation r E fs dir requestID)
         = Inl (Error (''DFTB+ calculation timed out after '' @ Sprintf_d (Timeout (config r))
                        @ '' seconds'')) \<and>
       (killed (runDFTBCalculation r E fs dir requestID) \<longleftrightarrow>
          (\<exists>s. started_at run = Some s \<and> s \<le> Timeout (config r) * Second)))"
proof -
  have w: "int64 (Timeout (config r) * Second) = Timeout (config r) * Second"
    using assms(2,3) by (simp add: int64_def Second_def)
  have f: "timer_fires_at (Timeout (config r) * Second) = Timeout (config r) * Second"
    using assms(2) by (simp add: timer_fires_at_def Second_def)
  show ?thesis
    using assms(1) assms(4)[symmetric]
    by (auto simp: runDFTBCalculation_def Let_def w f select_done_def
        split: option.splits if_splits)
qed

theorem runDFTBCalculation_outcomes_witness:
  "\<not> IsNotExist (os_Stat example_fs (DFTBPath (config (NewDFTBRunner example_config)))) \<and>
   0 < Timeout (config (NewDFTBRunner example_config)) \<and>
   Timeout (config (NewDFTBRunner example_config)) * Second < 9223372036854775808 \<and>
   finished_at (run_command slow_engine_env ''dftb+'' ''work/job1'' example_fs) = None \<and>
   started_at (run_command slow_engine_env ''dftb+'' ''work/job1'' example_fs) = Some 1000000 \<and>
   returned (runDFTBCalculation (NewDFTBRunner example_config) slow_engine_env example_fs
               ''work/job1'' ''job1'')
     = Inl (Error ''DFTB+ calculation timed out after 300 seconds'') \<and>
   killed (runDFTBCalculation (NewDFTBRunner example_config) slow_engine_env example_fs
             ''work/job1'' ''job1'') \<and>
   finished_at (run_command example_env ''dftb+'' ''work/job1'' example_fs) = Some (2 * Second) \<and>
   returned (runDFTBCalculation (NewDFTBRunner example_config) example_env example_fs
               ''work/job1'' ''job1'')
     = Inr ''work/job1/dftb_out.hsd''"
proof -
  let ?r = "NewDFTBRunner example_config"
  let ?slow = "run_command slow_engine_env (DFTBPath (config ?r)) ''work/job1'' example_fs"
  let ?fast = "run_command example_env (DFTBPath (config ?r)) ''work/job1'' example_fs"
  have a: "\<not> IsNotExist (os_Stat example_fs (DFTBPath (config ?r)))"
    by code_simp
  have b: "0 < Timeout (config ?r)" by code_simp
  have c: "Timeout (config ?r) * Second < 9223372036854775808" by code_simp
  have p: "DFTBPath (config ?r) = ''dftb+''" by code_simp
  have s: "finished_at ?slow = None \<and> started_at ?slow = Some 1000000 \<and>
      1000000 \<le> Timeout (config ?r) * Second \<and>
      Sprintf_d (Timeout (config ?r)) = ''300''"
    by code_simp
  have d: "finished_at ?fast = Some (2 * Second) \<and>
      2 * Second < Timeout (config ?r) * Second \<and> exit_error ?fast = None \<and>
      \<not> IsNotExist (os_Stat (files_at ?fast (2 * Second))
                       (filepath_Join ''work/job1'' ''dftb_out.hsd'')) \<and>
      filepath_Join ''work/job1'' ''dftb_out.hsd'' = ''work/job1/dftb_out.hsd''"
    by code_simp
  have slow: "returned (runDFTBCalculation ?r slow_engine_env example_fs ''work/job1'' ''job1'')
        = Inl (Error ''DFTB+ calculation timed out after 300 seconds'') \<and>
      killed (runDFTBCalculation ?r slow_engine_env example_fs ''work/job1'' ''job1'')"
    using runDFTBCalculation_outcomes [OF a b c refl, of slow_engine_env "''work/job1''" "''job1''"] s
    by auto
  have fast: "returned (runDFTBCalculation ?r example_env example_fs ''work/job1'' ''job1'')
        = Inr ''work/job1/dftb_out.hsd''"
    using runDFTBCalculation_outcomes [OF a b c refl, of example_env "''work/job1''" "''job1''"] d
    by (metis sum.exhaust_sel sum.collapse(2) sum.disc(2))
  from a b c s d slow fast p show ?thesis by simp
qed

text \<open>
  Claim C2 (at most max-requests jobs run at once, and a submission beyond the limit
  is rejected at submission time) fails on the code.  The handler is configured with
  max-requests = 1.  The first job has been launched and its engine is still running:
  its directory holds the input files and no output, and \<open>GetStatus\<close> reports it as
  running.  In that file system \<open>optimizeStructure\<close> answers a second valid submission
  with the code 200 and a success response instead of rejecting it; and once the
  engine of the second job is launched as well, \<open>GetStatus\<close> reports both jobs as
  running.
\<close>

theorem optimizeStructure_ignores_limit:
  "MaxRequests (APIHandler_config single_job_handler) = 1 \<and>
   GetStatus (dftbRunner single_job_handler) job1_launched_fs ''job1'' = ''running'' \<and>
   (case fst (optimizeStructure single_job_handler example_ops example_env job1_launched_fs
                (Inr second_request) ''u2'') of
      Inr (JSON_response code response) \<Rightarrow> code = 200 \<and> Status response = ''success''
    | _ \<Rightarrow> False) \<and>
   GetStatus (dftbRunner single_job_handler) job2_launched_fs ''job1'' = ''running'' \<and>
   GetStatus (dftbRunner single_job_handler) job2_launched_fs ''job2'' = ''running''"
  by code_simp

section \<open>Properties of the output interpreter\<close>

text \<open>
  Claim C5: when the output artifact can be read, \<open>parseDFTBOutput\<close> returns one fixed
  record, whatever the content: convergence status "converged", calculation status
  "completed", SCC converged, total energy -100.0 eV and -3.6749 hartree, Fermi level
  -5.0 eV, total charge and dipole moment zero.  So any two readable artifacts, and the
  same artifact read twice, give the same record.
\<close>

theorem parseDFTBOutput_fixed:
  "(os_ReadFile fs outputPath = Inr content \<longrightarrow>
      parseDFTBOutput F fs outputPath =
        Inr [(''summary'',
              Object [(''warnings'', Strings []),
                      (''convergence_status'', String ''converged''),
                      (''calculation_status'', String ''completed'')]),
             (''convergence_info'', Object [(''scc_converged'', Bool True)]),
             (''energies_eV'', Object [(''total'', Float (fconst F ''-100.0''))]),
             (''energies_hartree'', Object [(''total'', Float (fconst F ''-3.6749''))]),
             (''electronic_properties'',
              Object [(''fermi_level_eV'', Float (fconst F ''-5.0'')),
                      (''total_charge'', Float (fconst F ''0.0'')),
                      (''dipole_moment_debye'',
                       Object [(''x'', Float (fconst F ''0.0'')),
                               (''y'', Float (fconst F ''0.0'')),
                               (''z'', Float (fconst F ''0.0''))])])]) \<and>
   (os_ReadFile fs outputPath = Inr content \<and> os_ReadFile fs' outputPath' = Inr content' \<longrightarrow>
      parseDFTBOutput F fs outputPath = parseDFTBOutput F fs' outputPath')"
  by (simp add: parseDFTBOutput_def)

theorem parseDFTBOutput_fixed_witness:
  "os_ReadFile finished_fs ''work/job1/dftb_out.hsd'' = Inr ''Geometry = GenFormat {}'' \<and>
   map_of (projr (parseDFTBOutput example_ops finished_fs ''work/job1/dftb_out.hsd''))
     ''energies_eV'' = Some (Object [(''total'', Float (- 100))]) \<and>
   map_of (projr (parseDFTBOutput example_ops finished_fs ''work/job1/dftb_out.hsd''))
     ''convergence_info'' = Some (Object [(''scc_converged'', Bool True)])"
proof -
  have a: "os_ReadFile finished_fs ''work/job1/dftb_out.hsd'' = Inr ''Geometry = GenFormat {}''"
    by code_simp
  have b: "fconst example_ops ''-100.0'' = - 100" by code_simp
  show ?thesis
    using parseDFTBOutput_fixed [of finished_fs "''work/job1/dftb_out.hsd''"
        "''Geometry = GenFormat {}''" example_ops] a b
    by simp
qed

lemma failed_not_success:
  "failed requestID stage e fs = (Inr a, fs') \<Longrightarrow> Status a = ''error''"
  by (auto simp: failed_def createErrorResponse_def split: error.splits)

lemma generateOptimizedCIF_read_back:
  assumes "generateOptimizedCIF F E fs dir parsed pd = (Inr p, fs3)"
    and "ReadFromFile fs3 p = Inr c"
  shows "c = optimized_content F E parsed"
  using assms
  by (auto simp: generateOptimizedCIF_def ReadFromFile_def os_WriteFile_def os_ReadFile_def Let_def
      split: option.splits sum.splits)

lemma parseDFTBOutput_same:
  "parseDFTBOutput F fs p = Inr d \<Longrightarrow> parseDFTBOutput F fs2 p2 = Inr d2 \<Longrightarrow> d = d2"
  by (auto simp: parseDFTBOutput_def split: sum.splits)

text \<open>
  A successful run has parsed the structure, interpreted an output artifact, and
  returns the encoding of the optimized structure text written for that structure.
\<close>

lemma RunOptimization_success:
  assumes "RunOptimization r F E fs request = (Inr a, fs')" and "Status a = ''success''"
  shows "\<exists>parsed fs2 p. ParseFromBase64 F (StructureFile request) = Inr parsed \<and>
           parseDFTBOutput F fs2 p = Inr (ParsedData a) \<and>
           OutputCIFPath a = EncodeToString (optimized_content F E parsed)"
proof -
  let ?dir = "filepath_Join (workDir r) (RequestID request)"
  note d = assms(1)[unfolded RunOptimization_def Let_def]
  from d assms(2) obtain fs1 where m: "os_MkdirAll fs ?dir = (None, fs1)"
    by (cases "os_MkdirAll fs ?dir") (auto split: option.splits)
  from d m assms(2) obtain parsed where
    p: "ParseFromBase64 F (StructureFile request) = Inr parsed"
    by (cases "ParseFromBase64 F (StructureFile request)") (auto dest: failed_not_success)
  from d m p assms(2) obtain inp where
    i: "ToDFTBInput F (Some parsed) (Method request) (Fmax request) = Inr inp"
    by (cases "ToDFTBInput F (Some parsed) (Method request) (Fmax request)")
       (auto dest: failed_not_success)
  from d m p i assms(2) obtain fs2 where g: "generateInputFiles F fs1 ?dir inp = (None, fs2)"
    by (cases "generateInputFiles F fs1 ?dir inp")
       (auto split: option.splits dest: failed_not_success)
  let ?ran = "runDFTBCalculation r E fs2 ?dir (RequestID request)"
  from d m p i g assms(2) obtain out where ru: "returned ?ran = Inr out"
    by (cases "returned ?ran") (auto dest: failed_not_success)
  from d m p i g ru assms(2) obtain pd where pd: "parseDFTBOutput F (after ?ran) out = Inr pd"
    by (cases "parseDFTBOutput F (after ?ran) out") (auto dest: failed_not_success)
  from d m p i g ru pd assms(2) obtain path fs3 where
    o: "generateOptimizedCIF F E (after ?ran) ?dir parsed pd = (Inr path, fs3)"
    by (cases "generateOptimizedCIF F E (after ?ran) ?dir parsed pd")
       (auto split: sum.splits dest: failed_not_success)
  from d m p i g ru pd o assms(2) obtain c where c: "ReadFromFile fs3 path = Inr c"
    by (cases "ReadFromFile fs3 path") (auto dest: failed_not_success)
  from d m p i g ru pd o c have a:
    "a = \<lparr>Status = ''success'', Response_RequestID = RequestID request, ParsedData = pd,
          OutputCIFPath = EncodeToString c, ErrorMessage = []\<rparr>"
    by simp
  have "c = optimized_content F E parsed"
    using o c by (rule generateOptimizedCIF_read_back)
  with a p pd show ?thesis by auto
qed

text \<open>
  The orders of the example environments are orders of the maps of the example
  structure.
\<close>

lemma example_structure_orders:
  "range_order [''_cell_length_a'', ''_cell_length_b''] (CellLength (projr example_structure)) \<and>
   range_order [''_cell_length_b'', ''_cell_length_a''] (CellLength (projr example_structure)) \<and>
   range_order [] (CellAngle (projr example_structure))"
proof -
  have e: "\<not> isl example_structure \<and>
      map (CellLength (projr example_structure)) cell_length_keys = [Some 10, Some 10, None] \<and>
      map (CellAngle (projr example_structure)) cell_angle_keys = [None, None, None]"
    by code_simp
  then have "example_structure = Inr (projr example_structure)"
    by (cases example_structure) simp_all
  then have k: "cell_keys_only (projr example_structure)"
    unfolding example_structure_def by (rule ParseFromBase64_cell_keys)
  have "dom (CellLength (projr example_structure)) = {''_cell_length_a'', ''_cell_length_b''}"
    using k e by (auto simp: cell_keys_only_def cell_length_keys_def)
  moreover have "dom (CellAngle (projr example_structure)) = {}"
    using k e by (auto simp: cell_keys_only_def cell_angle_keys_def)
  ultimately show ?thesis by (auto simp: range_order_def)
qed

text \<open>
  Claim C3 (two successful runs on the same structure content, method and fmax return
  the same payload) fails on the code: the optimized structure text carries the date
  of the run, and its cell lines follow the order in which the run's \<open>range\<close> loops
  visit the maps.  The same request succeeds on two consecutive days with two
  different payloads, and on the same day with the two orders of its two cell lengths
  with two different payloads.
\<close>

theorem RunOptimization_payload_counterexample:
  "range_order (range_CellLength example_env) (CellLength (projr example_structure)) \<and>
   range_order (range_CellLength other_order_env) (CellLength (projr example_structure)) \<and>
   range_order (range_CellAngle example_env) (CellAngle (projr example_structure)) \<and>
   \<not> isl (run_in example_env example_request) \<and>
   Status (projr (run_in example_env example_request)) = ''success'' \<and>
   \<not> isl (run_in next_day_env example_request) \<and>
   Status (projr (run_in next_day_env example_request)) = ''success'' \<and>
   OutputCIFPath (projr (run_in example_env example_request))
     \<noteq> OutputCIFPath (projr (run_in next_day_env example_request)) \<and>
   \<not> isl (run_in other_order_env example_request) \<and>
   Status (projr (run_in other_order_env example_request)) = ''success'' \<and>
   today other_order_env = today example_env \<and>
   OutputCIFPath (projr (run_in example_env example_request))
     \<noteq> OutputCIFPath (projr (run_in other_order_env example_request))"
proof -
  have runs:
    "\<not> isl (run_in example_env example_request) \<and>
     Status (projr (run_in example_env example_request)) = ''success'' \<and>
     \<not> isl (run_in next_day_env example_request) \<and>
     Status (projr (run_in next_day_env example_request)) = ''success'' \<and>
     OutputCIFPath (projr (run_in example_env example_request))
       \<noteq> OutputCIFPath (projr (run_in next_day_env example_request)) \<and>
     \<not> isl (run_in other_order_env example_request) \<and>
     Status (projr (run_in other_order_env example_request)) = ''success'' \<and>
     today other_order_env = today example_env \<and>
     OutputCIFPath (projr (run_in example_env example_request))
       \<noteq> OutputCIFPath (projr (run_in other_order_env example_request))"
    by code_simp
  have orders:
    "range_order (range_CellLength example_env) (CellLength (projr example_structure)) \<and>
     range_order (range_CellLength other_order_env) (CellLength (projr example_structure)) \<and>
     range_order (range_CellAngle example_env) (CellAngle (projr example_structure))"
    using example_structure_orders by (simp add: example_env_def other_order_env_def)
  from orders runs show ?thesis by blast
qed

text \<open>
  Claim C3 as amended: two successful runs on the same structure content (whatever the
  method, the threshold and the request identifiers) return the same parsed data, and
  the same payload when they take place on the same date and their \<open>range\<close> loops visit
  the cell lengths and the cell angles in the same order.
\<close>

theorem RunOptimization_reuse:
  assumes "RunOptimization r1 F E1 fs1 request1 = (Inr a, fs1')" and "Status a = ''success''"
    and "RunOptimization r2 F E2 fs2 request2 = (Inr b, fs2')" and "Status b = ''success''"
    and "StructureFile request1 = StructureFile request2"
  shows "ParsedData a = ParsedData b \<and>
         (today E1 = today E2 \<and> range_CellLength E1 = range_CellLength E2 \<and>
          range_CellAngle E1 = range_CellAngle E2 \<longrightarrow> OutputCIFPath a = OutputCIFPath b)"
proof -
  from RunOptimization_success[OF assms(1,2)] obtain pa fa qa where
    a: "ParseFromBase64 F (StructureFile request1) = Inr pa"
       "parseDFTBOutput F fa qa = Inr (ParsedData a)"
       "OutputCIFPath a = EncodeToString (optimized_content F E1 pa)" by blast
  from RunOptimization_success[OF assms(3,4)] obtain pb fb qb where
    b: "ParseFromBase64 F (StructureFile request2) = Inr pb"
       "parseDFTBOutput F fb qb = Inr (ParsedData b)"
       "OutputCIFPath b = EncodeToString (optimized_content F E2 pb)" by blast
  from a(1) b(1) assms(5) have "pa = pb" by simp
  with a b show ?thesis
    by (auto simp: optimized_content_def dest: parseDFTBOutput_same)
qed

theorem RunOptimization_reuse_witness:
  "Status (projr (run_in example_env example_request)) = ''success'' \<and>
   Status (projr (run_in example_env second_request)) = ''success'' \<and>
   StructureFile example_request = StructureFile second_request \<and>
   ParsedData (projr (run_in example_env example_request))
     = ParsedData (projr (run_in example_env second_request)) \<and>
   OutputCIFPath (projr (run_in example_env example_request))
     = OutputCIFPath (projr (run_in example_env second_request))"
proof -
  let ?r = "NewDFTBRunner example_config"
  let ?run1 = "RunOptimization ?r example_ops example_env example_fs example_request"
  let ?run2 = "RunOptimization ?r example_ops example_env example_fs second_request"
  have s1: "\<not> isl (fst ?run1) \<and> Status (projr (fst ?run1)) = ''success''" by code_simp
  have s2: "\<not> isl (fst ?run2) \<and> Status (projr (fst ?run2)) = ''success''" by code_simp
  have e1: "?run1 = (Inr (projr (fst ?run1)), snd ?run1)"
    using s1 by (cases ?run1, cases "fst ?run1") simp_all
  have e2: "?run2 = (Inr (projr (fst ?run2)), snd ?run2)"
    using s2 by (cases ?run2, cases "fst ?run2") simp_all
  have f: "StructureFile example_request = StructureFile second_request"
    by (simp add: second_request_def)
  show ?thesis
    using RunOptimization_reuse [OF e1 _ e2 _ f] s1 s2 f by (simp add: run_in_def)
qed

section \<open>Properties of the job status registry\<close>

text \<open>
  Claim C7 (not_found if and only if the job directory does not exist, and so on for
  the other artifacts) fails on the code where \<open>os.Stat\<close> fails for another reason than
  a missing file.  For a job identifier of 256 bytes \<open>os.Stat\<close> refuses the three paths
  because the name is too long: there is no job directory and no \<open>error.log\<close>, and
  \<open>GetStatus\<close> returns error.
\<close>

theorem GetStatus_long_name_counterexample:
  "\<not> entry name_limit_fs (job_directory (NewDFTBRunner example_config) long_id) \<and>
   \<not> entry name_limit_fs (job_output (NewDFTBRunner example_config) long_id) \<and>
   \<not> entry name_limit_fs (job_error_log (NewDFTBRunner example_config) long_id) \<and>
   GetStatus (NewDFTBRunner example_config) name_limit_fs long_id = ''error''"
  by code_simp

text \<open>
  Claim C7 as amended: \<open>GetStatus\<close> returns one of not_found, running, completed and
  error, from the outcomes of \<open>os.Stat\<close> on the job directory, on \<open>dftb_out.hsd\<close> and on
  \<open>error.log\<close> and from nothing else: not_found exactly when \<open>os.Stat\<close> reports the job
  directory as not existing, running exactly when it does not and reports
  \<open>dftb_out.hsd\<close> as not existing, and otherwise error unless it reports \<open>error.log\<close> as
  not existing, when the status is completed.  Two file systems that agree on the
  three outcomes give the same status.  Where \<open>os.Stat\<close> fails on none of the three
  paths for another reason, the status is not_found exactly when the job directory
  does not exist, running exactly when the directory exists and \<open>dftb_out.hsd\<close> does
  not, error exactly when the three exist, and completed exactly when the directory
  and \<open>dftb_out.hsd\<close> exist and \<open>error.log\<close> does not.
\<close>

theorem GetStatus_from_artifacts:
  "GetStatus r fs requestID \<in> set [''not_found'', ''running'', ''completed'', ''error''] \<and>
   (GetStatus r fs requestID = ''not_found'' \<longleftrightarrow>
      IsNotExist (os_Stat fs (job_directory r requestID))) \<and>
   (GetStatus r fs requestID = ''running'' \<longleftrightarrow>
      \<not> IsNotExist (os_Stat fs (job_directory r requestID)) \<and>
      IsNotExist (os_Stat fs (job_output r requestID))) \<and>
   (GetStatus r fs requestID = ''error'' \<longleftrightarrow>
      \<not> IsNotExist (os_Stat fs (job_directory r requestID)) \<and>
      \<not> IsNotExist (os_Stat fs (job_output r requestID)) \<and>
      \<not> IsNotExist (os_Stat fs (job_error_log r requestID))) \<and>
   (GetStatus r fs requestID = ''completed'' \<longleftrightarrow>
      \<not> IsNotExist (os_Stat fs (job_directory r requestID)) \<and>
      \<not> IsNotExist (os_Stat fs (job_output r requestID)) \<and>
      IsNotExist (os_Stat fs (job_error_log r requestID))) \<and>
   (os_Stat fs' (job_directory r requestID) = os_Stat fs (job_directory r requestID) \<and>
    os_Stat fs' (job_output r requestID) = os_Stat fs (job_output r requestID) \<and>
    os_Stat fs' (job_error_log r requestID) = os_Stat fs (job_error_log r requestID) \<longrightarrow>
      GetStatus r fs' requestID = GetStatus r fs requestID) \<and>
   (Stat_error fs (job_directory r requestID) = None \<and>
    Stat_error fs (job_output r requestID) = None \<and>
    Stat_error fs (job_error_log r requestID) = None \<longrightarrow>
      (GetStatus r fs requestID = ''not_found'' \<longleftrightarrow> \<not> entry fs (job_directory r requestID)) \<and>
      (GetStatus r fs requestID = ''running'' \<longleftrightarrow>
         entry fs (job_directory r requestID) \<and> \<not> entry fs (job_output r requestID)) \<and>
      (GetStatus r fs requestID = ''error'' \<longleftrightarrow>
         entry fs (job_directory r requestID) \<and> entry fs (job_output r requestID) \<and>
         entry fs (job_error_log r requestID)) \<and>
      (GetStatus r fs requestID = ''completed'' \<longleftrightarrow>
         entry fs (job_directory r requestID) \<and> entry fs (job_output r requestID) \<and>
         \<not> entry fs (job_error_log r requestID)))"
  by (simp add: GetStatus_def Let_def job_directory_def job_output_def job_error_log_def
      os_Stat_def IsNotExist_def)

theorem GetStatus_from_artifacts_witness:
  "Stat_error example_fs (job_directory (NewDFTBRunner example_config) ''job1'') = None \<and>
   \<not> entry example_fs (job_directory (NewDFTBRunner example_config) ''job1'') \<and>
   GetStatus (NewDFTBRunner example_config) example_fs ''job1'' = ''not_found'' \<and>
   Stat_error finished_fs (job_directory (NewDFTBRunner example_config) ''job1'') = None \<and>
   Stat_error finished_fs (job_output (NewDFTBRunner example_config) ''job1'') = None \<and>
   Stat_error finished_fs (job_error_log (NewDFTBRunner example_config) ''job1'') = None \<and>
   entry finished_fs (job_directory (NewDFTBRunner example_config) ''job1'') \<and>
   entry finished_fs (job_output (NewDFTBRunner example_config) ''job1'') \<and>
   \<not> entry finished_fs (job_error_log (NewDFTBRunner example_config) ''job1'') \<and>
   GetStatus (NewDFTBRunner example_config) finished_fs ''job1'' = ''completed''"
proof -
  let ?r = "NewDFTBRunner example_config"
  have a: "Stat_error example_fs (job_directory ?r ''job1'') = None \<and>
      \<not> entry example_fs (job_directory ?r ''job1'') \<and>
      IsNotExist (os_Stat example_fs (job_directory ?r ''job1''))"
    by code_simp
  have b: "Stat_error finished_fs (job_directory ?r ''job1'') = None \<and>
      Stat_error finished_fs (job_output ?r ''job1'') = None \<and>
      Stat_error finished_fs (job_error_log ?r ''job1'') = None \<and>
      entry finished_fs (job_directory ?r ''job1'') \<and>
      entry finished_fs (job_output ?r ''job1'') \<and>
      \<not> entry finished_fs (job_error_log ?r ''job1'')"
    by code_simp
  show ?thesis
    using GetStatus_from_artifacts [of ?r example_fs "''job1''" example_fs]
      GetStatus_from_artifacts [of ?r finished_fs "''job1''" finished_fs]
      a b
    by simp
qed


end
